theory Spec2Isabelle
  imports Main "HOL-Library.Sublist"
begin

section \<open>Data model of the go-ftw runner\<close>

text \<open>
  The development embeds package runner (\<^verbatim>\<open>Run\<close>, \<^verbatim>\<open>RunTest\<close>,
  \<^verbatim>\<open>RunStage\<close> and their helpers) and package waflog
  (\<^verbatim>\<open>waflog/waflog.go\<close>). Go values are modelled as follows:
  a pointer that may be nil is an \<open>option\<close>, a byte slice is a \<open>string\<close>, a Go map is a
  partial function, an \<open>error\<close> result is an \<open>error option\<close> (\<open>None\<close> is nil), and every
  interaction with the outside (HTTP client, log file, console, clock) is a call on an
  explicit environment whose answers are indexed by call counters, leaving an event in a
  trace.
\<close>

type_synonym bytes = string
type_synonym duration = int

text \<open>
  Modelled from the spec: the declaration of \<^verbatim>\<open>TestResult\<close> is not among the
  sources; the spec lists its values as Success, Failed, Skipped, Ignored, ForceFail,
  ForcePass.
\<close>

datatype TestResult = Success | Failed | Skipped | Ignored | ForceFail | ForcePass

text \<open>
  Modelled from the spec: package config is not among the sources; the spec names two
  run modes, standard (the default) and cloud.
\<close>

datatype RunMode = DefaultRunMode | CloudRunMode

text \<open>
  Go errors. The two package-level sentinels are constructors of their own, an error
  handed over by a collaborator (HTTP client, operating system) carries its message,
  \<open>MarkerNotFound\<close> is the error built at the end of \<^verbatim>\<open>markAndFlush\<close> from the
  log file name, and \<open>Errorf p e\<close> is \<^verbatim>\<open>fmt.Errorf(p + "%w", e)\<close>.
\<close>

datatype error =
    ErrBadTestRequest
  | ErrNoLogFile
  | External string
  | MarkerNotFound string
  | Errorf string error

fun Error :: "error \<Rightarrow> string" where
  "Error ErrBadTestRequest = ''ftw/run: bad test: choose between data, encoded_request, or raw_request''"
| "Error ErrNoLogFile = ''no log file supplied''"
| "Error (External m) = m"
| "Error (MarkerNotFound f) = ''can't find log marker. Am I reading the correct log? Log file: '' @ f"
| "Error (Errorf p e) = p @ Error e"

text \<open>
  Modelled from the spec: the methods of \<^verbatim>\<open>ftwhttp.Header\<close>, a Go map from header
  name to value, are not among the sources. It is a header collection with one value per
  name; \<open>Get\<close> yields the stored value, and the empty string for a name that is absent
  (the caller compares the result with the empty string); \<open>Set\<close> stores a value.
\<close>

type_synonym Header = "string \<rightharpoonup> string"

definition Get :: "Header \<Rightarrow> string \<Rightarrow> string" where
  "Get h k = (case h k of None \<Rightarrow> [] | Some v \<Rightarrow> v)"

definition Set :: "Header \<Rightarrow> string \<Rightarrow> string \<Rightarrow> Header" where
  "Set h k v = h(k \<mapsto> v)"

text \<open>
  \<^verbatim>\<open>test.Input\<close>, with the fields the runner reads and writes, typed by the use
  it makes of them: the fields it compares with nil are optional, the two it compares
  with the empty string are strings.
\<close>

record Input =
  DestAddr :: "string option"
  Port :: "int option"
  Protocol :: "string option"
  URI :: "string option"
  Version :: "string option"
  Headers :: "Header option"
  Method :: "string option"
  Data :: "string option"
  EncodedRequest :: string
  RAWRequest :: string
  StopMagic :: bool

text \<open>
  Modelled from the spec: the declaration of \<^verbatim>\<open>test.Output\<close> is not among the
  sources and the runner itself reads \<open>ExpectError\<close> only; the other fields follow the
  spec's data model, "expected status codes, expected response-body substrings, expected
  log substrings/absences".
\<close>

record Output =
  Status :: "int list"
  ResponseContains :: "string list"
  LogContains :: "string list"
  NoLogContains :: "string list"
  ExpectError :: bool

text \<open>
  A stage with its \<^verbatim>\<open>Input\<close> and \<^verbatim>\<open>Output\<close> fields, a test case and a test
  file with its \<^verbatim>\<open>Meta\<close> data. The list \<^verbatim>\<open>Stages\<close> holds the stages
  themselves, without the wrapper that the test format puts around each.
\<close>

record Stage =
  StageInput :: Input
  StageOutput :: Output

record Test =
  TestTitle :: string
  Stages :: "Stage list"

record Meta =
  Enabled :: bool
  Name :: string

record FTWTest =
  Meta :: Meta
  Tests :: "Test list"

text \<open>
  The values of package ftwhttp that the runner builds and receives: a destination and a
  request line as the struct literals of the source give them, a request as the
  constructor that made it with its arguments, and a response with the status code and
  the body that the result evaluator reads.
\<close>

record Destination =
  DestAddr_d :: string
  Port_d :: int
  Protocol_d :: string

record RequestLine =
  Method_l :: string
  URI_l :: string
  Version_l :: string

datatype Request =
    NewRawRequest bytes bool
  | NewRequest RequestLine "Header option" "bytes option" bool

record Response =
  StatusCode :: int
  Body :: string

text \<open>The global overrides of \<^verbatim>\<open>config.FTWConfig.TestOverride\<close>.\<close>

record InputOverride =
  Port_o :: "int option"
  DestAddr_o :: "string option"
  Protocol_o :: "string option"

record FTWConfiguration =
  LogFile :: string
  ConfRunMode :: RunMode
  LogMarkerHeaderName :: string
  OverrideInput :: InputOverride
  OverrideIgnore :: "string \<Rightarrow> bool"
  OverrideForceFail :: "string \<Rightarrow> bool"
  OverrideForcePass :: "string \<Rightarrow> bool"

text \<open>A compiled regular expression is the set of strings it matches.\<close>

type_synonym Regexp = "string \<Rightarrow> bool"

section \<open>Pure helpers of the runner\<close>

definition needToSkipTest :: "Regexp option \<Rightarrow> Regexp option \<Rightarrow> string \<Rightarrow> bool \<Rightarrow> bool" where
  "needToSkipTest incl excl title enabled =
     (if \<not> enabled then True
      else if (case incl of None \<Rightarrow> False | Some r \<Rightarrow> r title) then False
      else
        (let result = False;
             result = (case excl of None \<Rightarrow> result
                       | Some r \<Rightarrow> if r title then True else result);
             result = (case incl of None \<Rightarrow> result
                       | Some r \<Rightarrow> if \<not> r title then True else result)
         in result))"

text \<open>
  Modelled from the spec: \<^verbatim>\<open>utils.IsNotEmpty\<close> is not among the sources; a
  body form counts as set when it is present and not the empty string.
\<close>

definition IsNotEmpty :: "string option \<Rightarrow> bool" where
  "IsNotEmpty d = (case d of None \<Rightarrow> False | Some s \<Rightarrow> s \<noteq> [])"

definition checkTestSanity :: "Input \<Rightarrow> bool" where
  "checkTestSanity testRequest =
     ((IsNotEmpty (Data testRequest) \<and> EncodedRequest testRequest \<noteq> []) \<or>
      (IsNotEmpty (Data testRequest) \<and> RAWRequest testRequest \<noteq> []) \<or>
      (EncodedRequest testRequest \<noteq> [] \<and> RAWRequest testRequest \<noteq> []))"

text \<open>
  \<^verbatim>\<open>applyInputOverride\<close> writes into the copy of the input it is given and returns
  the copy with an error value. The header map of the copy is the one of the stage; a
  stage is run once and not read again afterwards, so the model returns the new map and
  keeps no store.
\<close>

definition applyInputOverride :: "FTWConfiguration \<Rightarrow> Input \<Rightarrow> error option \<times> Input" where
  "applyInputOverride cfg testRequest =
     (let overrides = OverrideInput cfg;
          t1 = (case Port_o overrides of None \<Rightarrow> testRequest
                | Some p \<Rightarrow> testRequest\<lparr>Port := Some p\<rparr>);
          t2 = (case DestAddr_o overrides of None \<Rightarrow> t1
                | Some a \<Rightarrow>
                    (let u1 = t1\<lparr>DestAddr := Some a\<rparr>;
                         u2 = (case Headers u1 of None \<Rightarrow> u1\<lparr>Headers := Some Map.empty\<rparr>
                               | Some h \<Rightarrow> u1);
                         h = (case Headers u2 of None \<Rightarrow> Map.empty | Some h \<Rightarrow> h)
                     in if Get h ''Host'' = [] then u2\<lparr>Headers := Some (Set h ''Host'' a)\<rparr>
                        else u2));
          t3 = (case Protocol_o overrides of None \<Rightarrow> t2
                | Some p \<Rightarrow> t2\<lparr>Protocol := Some p\<rparr>)
      in (None, t3))"

definition fmt_digit :: "nat \<Rightarrow> char" where
  "fmt_digit d = char_of (48 + d)"

fun fmt_nat :: "nat \<Rightarrow> string" where
  "fmt_nat n = (if n < 10 then [fmt_digit n] else fmt_nat (n div 10) @ [fmt_digit (n mod 10)])"

declare fmt_nat.simps [simp del]

definition fmt_int :: "int \<Rightarrow> string" where
  "fmt_int i = (if i < 0 then CHR ''-'' # fmt_nat (nat (- i)) else fmt_nat (nat i))"

text \<open>The verb \<^verbatim>\<open>%+v\<close> applied to a pointer to a \<^verbatim>\<open>Destination\<close>.\<close>

definition fmt_dest :: "Destination \<Rightarrow> string" where
  "fmt_dest d = ''&{DestAddr:'' @ DestAddr_d d @ '' Port:'' @ fmt_int (Port_d d) @
                '' Protocol:'' @ Protocol_d d @ ''}''"

section \<open>The outside world\<close>

datatype assertion =
  ExpectErrorAssertion | StatusAssertion | ResponseAssertion | LogAssertion | NoLogAssertion

datatype arg = S string | D duration

datatype event =
    Printed string "arg list"
  | Logged string
  | Connected Destination
  | Sent Request
  | Probed string
  | Asserted assertion
  | OpenedFile string
  | ClosedFile nat
  | Summarized nat

text \<open>
  The state of everything outside the runner: how many connections, requests, log probes
  and stages there have been (the index of the environment's next answer), and the trace
  of events so far, oldest first.
\<close>

record World =
  conns :: nat
  sends :: nat
  probes :: nat
  stages :: nat
  trace :: "event list"

record ClientConfig =
  ConnectTimeout :: duration
  ReadTimeout :: duration

text \<open>
  The collaborators whose code is not among the sources are parameters: the HTTP client
  of package ftwhttp, the marker lookup and the log window of package waflog, the
  operating system's files, the clock, the identifier generator and the accessors of
  \<^verbatim>\<open>test.Input\<close>. An answer may depend on the arguments of the call and on how many
  calls of its kind came before.
\<close>

record Env =
  newUUID :: "nat \<Rightarrow> string"
  newClientConfig :: ClientConfig
  newClient :: "ClientConfig \<Rightarrow> error option"
  newConnection :: "nat \<Rightarrow> Destination \<Rightarrow> error option"
  newOrReusedConnection :: "nat \<Rightarrow> Destination \<Rightarrow> error option"
  clientDo :: "nat \<Rightarrow> Request \<Rightarrow> Response option \<times> error option"
  checkLogForMarker :: "nat \<Rightarrow> string \<Rightarrow> bytes option"
  logWindow :: "bytes option \<Rightarrow> bytes option \<Rightarrow> string"
  osOpen :: "string \<Rightarrow> nat option \<times> error option"
  fileClose :: "nat \<Rightarrow> error option"
  roundTripDuration :: "nat \<Rightarrow> duration"
  sinceStart :: "nat \<Rightarrow> duration"
  getDestAddr :: "Input \<Rightarrow> string"
  getPort :: "Input \<Rightarrow> int"
  getProtocol :: "Input \<Rightarrow> string"
  getMethod :: "Input \<Rightarrow> string"
  getURI :: "Input \<Rightarrow> string"
  getVersion :: "Input \<Rightarrow> string"
  parseData :: "Input \<Rightarrow> bytes option"
  getRawRequest :: "Input \<Rightarrow> bytes option \<times> error option"

definition emit :: "event \<Rightarrow> World \<Rightarrow> World" where
  "emit e w = w\<lparr>trace := trace w @ [e]\<rparr>"

text \<open>
  Console output is an event that carries the format string, written without its tab and
  newline escapes, and the arguments.
\<close>

definition printUnlessQuietMode :: "bool \<Rightarrow> string \<Rightarrow> arg list \<Rightarrow> World \<Rightarrow> World" where
  "printUnlessQuietMode quiet format a w = (if \<not> quiet then emit (Printed format a) w else w)"

definition NewConnection :: "Env \<Rightarrow> Destination \<Rightarrow> World \<Rightarrow> error option \<times> World" where
  "NewConnection env dest w =
     (newConnection env (conns w) dest, emit (Connected dest) (w\<lparr>conns := Suc (conns w)\<rparr>))"

definition NewOrReusedConnection :: "Env \<Rightarrow> Destination \<Rightarrow> World \<Rightarrow> error option \<times> World" where
  "NewOrReusedConnection env dest w =
     (newOrReusedConnection env (conns w) dest, emit (Connected dest) (w\<lparr>conns := Suc (conns w)\<rparr>))"

definition Do :: "Env \<Rightarrow> Request \<Rightarrow> World \<Rightarrow> (Response option \<times> error option) \<times> World" where
  "Do env req w = (clientDo env (sends w) req, emit (Sent req) (w\<lparr>sends := Suc (sends w)\<rparr>))"

definition CheckLogForMarker :: "Env \<Rightarrow> string \<Rightarrow> World \<Rightarrow> bytes option \<times> World" where
  "CheckLogForMarker env stageID w =
     (checkLogForMarker env (probes w) stageID, emit (Probed stageID) (w\<lparr>probes := Suc (probes w)\<rparr>))"

section \<open>Package waflog\<close>

record FTWLogLines =
  logFile :: "nat option"
  FileName :: string
  StartMarker :: "bytes option"
  EndMarker :: "bytes option"

definition toLower_char :: "char \<Rightarrow> char" where
  "toLower_char c =
     (let n = (of_char c :: nat) in if 65 \<le> n \<and> n \<le> 90 then char_of (n + 32) else c)"

text \<open>\<^verbatim>\<open>bytes.ToLower\<close> on ASCII text; a nil slice stays without content.\<close>

definition ToLower :: "bytes \<Rightarrow> bytes" where
  "ToLower b = map toLower_char b"

datatype FTWLogOption = WithStartMarker bytes | WithEndMarker bytes | WithLogFile string

fun applyOption :: "FTWLogOption \<Rightarrow> FTWLogLines \<Rightarrow> FTWLogLines" where
  "applyOption (WithStartMarker marker) ll = ll\<lparr>StartMarker := Some (ToLower marker)\<rparr>"
| "applyOption (WithEndMarker marker) ll = ll\<lparr>EndMarker := Some (ToLower marker)\<rparr>"
| "applyOption (WithLogFile fileName) ll = ll\<lparr>FileName := fileName\<rparr>"

definition openLogFile ::
  "Env \<Rightarrow> FTWConfiguration \<Rightarrow> FTWLogLines \<Rightarrow> World \<Rightarrow> (error option \<times> FTWLogLines) \<times> World" where
  "openLogFile env cfg ll w =
     (if ConfRunMode cfg = DefaultRunMode then
        (if FileName ll \<noteq> [] \<and> logFile ll = None then
           (case osOpen env (FileName ll) of
              (f, err) \<Rightarrow> ((err, ll\<lparr>logFile := f\<rparr>), emit (OpenedFile (FileName ll)) w))
         else ((None, ll), w))
      else ((None, ll), w))"

definition NewFTWLogLines ::
  "Env \<Rightarrow> FTWConfiguration \<Rightarrow> FTWLogOption list \<Rightarrow> World
     \<Rightarrow> (error + FTWLogLines) \<times> World" where
  "NewFTWLogLines env cfg opts w =
     (let ll = \<lparr>logFile = None, FileName = LogFile cfg, StartMarker = None, EndMarker = None\<rparr>;
          ll = fold applyOption opts ll
      in case openLogFile env cfg ll w of
           ((Some err, ll), w) \<Rightarrow> (Inl (Errorf ''cannot open log file: '' err), w)
         | ((None, ll), w) \<Rightarrow>
             (if ConfRunMode cfg = DefaultRunMode \<and> logFile ll = None
              then (Inl ErrNoLogFile, w)
              else (Inr ll, w)))"

definition Cleanup :: "Env \<Rightarrow> FTWLogLines \<Rightarrow> World \<Rightarrow> error option \<times> World" where
  "Cleanup env ll w =
     (case logFile ll of
        Some f \<Rightarrow> (fileClose env f, emit (ClosedFile f) w)
      | None \<Rightarrow> (None, w))"

section \<open>Package check\<close>

text \<open>
  Modelled from the spec: package check is not among the sources. A check holds the
  configuration it was made from, the expected output of the stage and the two markers
  that bound the stage's log window. Its assertions follow the Result Evaluator's rules:
  the error assertion holds when the expected output declares that an error is
  expected; the status assertion when the status code is among the expected ones; the
  response assertion when the body contains an expected substring; the log assertion
  when the log window contains an expected substring; the no-log assertion when the
  stage expects a substring to be absent from the log window and it is absent. A forced
  result is configured per test id. In cloud mode "log-based checks are disabled".
  Every assertion is an event, so that which of them were consulted can be read off the
  trace.
\<close>

record FTWCheck =
  CheckCfg :: FTWConfiguration
  expected :: Output
  StartMarker_c :: "bytes option"
  EndMarker_c :: "bytes option"

definition NewCheck :: "FTWConfiguration \<Rightarrow> FTWCheck" where
  "NewCheck cfg =
     \<lparr>CheckCfg = cfg,
      expected = \<lparr>Status = [], ResponseContains = [], LogContains = [], NoLogContains = [],
                  ExpectError = False\<rparr>,
      StartMarker_c = None, EndMarker_c = None\<rparr>"

definition CloudMode :: "FTWCheck \<Rightarrow> bool" where
  "CloudMode c = (ConfRunMode (CheckCfg c) = CloudRunMode)"

definition SetCloudMode :: "FTWCheck \<Rightarrow> FTWCheck" where
  "SetCloudMode c = c\<lparr>expected := (expected c)\<lparr>LogContains := [], NoLogContains := []\<rparr>\<rparr>"

definition SetExpectTestOutput :: "FTWCheck \<Rightarrow> Output \<Rightarrow> FTWCheck" where
  "SetExpectTestOutput c t = c\<lparr>expected := t\<rparr>"

definition SetStartMarker :: "FTWCheck \<Rightarrow> bytes option \<Rightarrow> FTWCheck" where
  "SetStartMarker c marker = c\<lparr>StartMarker_c := map_option ToLower marker\<rparr>"

definition SetEndMarker :: "FTWCheck \<Rightarrow> bytes option \<Rightarrow> FTWCheck" where
  "SetEndMarker c marker = c\<lparr>EndMarker_c := map_option ToLower marker\<rparr>"

definition ForcedIgnore :: "FTWCheck \<Rightarrow> string \<Rightarrow> bool" where
  "ForcedIgnore c testId = OverrideIgnore (CheckCfg c) testId"

definition ForcedFail :: "FTWCheck \<Rightarrow> string \<Rightarrow> bool" where
  "ForcedFail c testId = OverrideForceFail (CheckCfg c) testId"

definition ForcedPass :: "FTWCheck \<Rightarrow> string \<Rightarrow> bool" where
  "ForcedPass c testId = OverrideForcePass (CheckCfg c) testId"

definition window :: "Env \<Rightarrow> FTWCheck \<Rightarrow> string" where
  "window env c = logWindow env (StartMarker_c c) (EndMarker_c c)"

definition statusHolds :: "FTWCheck \<Rightarrow> int \<Rightarrow> bool" where
  "statusHolds c status = (status \<in> set (Status (expected c)))"

definition responseHolds :: "FTWCheck \<Rightarrow> string \<Rightarrow> bool" where
  "responseHolds c body = (\<exists>s \<in> set (ResponseContains (expected c)). sublist s body)"

definition logHolds :: "Env \<Rightarrow> FTWCheck \<Rightarrow> bool" where
  "logHolds env c = (\<exists>s \<in> set (LogContains (expected c)). sublist s (window env c))"

definition noLogHolds :: "Env \<Rightarrow> FTWCheck \<Rightarrow> bool" where
  "noLogHolds env c = (\<exists>s \<in> set (NoLogContains (expected c)). \<not> sublist s (window env c))"

definition AssertExpectError :: "FTWCheck \<Rightarrow> error \<Rightarrow> World \<Rightarrow> bool \<times> World" where
  "AssertExpectError c err w = (ExpectError (expected c), emit (Asserted ExpectErrorAssertion) w)"

definition AssertStatus :: "FTWCheck \<Rightarrow> int \<Rightarrow> World \<Rightarrow> bool \<times> World" where
  "AssertStatus c status w = (statusHolds c status, emit (Asserted StatusAssertion) w)"

definition AssertResponseContains :: "FTWCheck \<Rightarrow> string \<Rightarrow> World \<Rightarrow> bool \<times> World" where
  "AssertResponseContains c body w = (responseHolds c body, emit (Asserted ResponseAssertion) w)"

definition AssertLogContains :: "Env \<Rightarrow> FTWCheck \<Rightarrow> World \<Rightarrow> bool \<times> World" where
  "AssertLogContains env c w = (logHolds env c, emit (Asserted LogAssertion) w)"

definition AssertNoLogContains :: "Env \<Rightarrow> FTWCheck \<Rightarrow> World \<Rightarrow> bool \<times> World" where
  "AssertNoLogContains env c w = (noLogHolds env c, emit (Asserted NoLogAssertion) w)"

section \<open>Package runner\<close>

text \<open>
  Modelled from the spec: the declarations of the run statistics, of the run context and
  of \<^verbatim>\<open>addResultToStats\<close> and \<^verbatim>\<open>printSummary\<close> are not among the sources.
  The statistics are "a mapping from outcome kind to count, plus total executed count and
  cumulative elapsed time"; recording a result adds one to the count of its kind; the
  summary reports the total executed. The run context holds the filters, the quiet flag
  (the field \<^verbatim>\<open>Output\<close>), the log reader, the run mode, the statistics and the
  most recent result; its HTTP client is the world. The fields \<^verbatim>\<open>Run\<close> and
  \<^verbatim>\<open>RunTime\<close> of the statistics are \<open>StatsRun\<close> and \<open>StatsRunTime\<close>, and the
  fields of \<^verbatim>\<open>Config\<close> that share a name with a field of the context carry the
  suffix \<open>_c\<close>.
\<close>

record TestStats =
  counts :: "TestResult \<Rightarrow> nat"
  StatsRun :: nat
  StatsRunTime :: duration

definition addResultToStats :: "TestResult \<Rightarrow> string \<Rightarrow> TestStats \<Rightarrow> TestStats" where
  "addResultToStats result title stats = stats\<lparr>counts := (counts stats)(result := Suc (counts stats result))\<rparr>"

definition printSummary :: "bool \<Rightarrow> TestStats \<Rightarrow> World \<Rightarrow> World" where
  "printSummary quiet stats w = (if \<not> quiet then emit (Summarized (StatsRun stats)) w else w)"

record TestRunContext =
  Include :: "Regexp option"
  Exclude :: "Regexp option"
  ShowTime :: bool
  Output :: bool
  Stats :: TestStats
  Result :: TestResult
  LogLines :: FTWLogLines
  RunMode :: RunMode

record Config =
  Include_c :: "Regexp option"
  Exclude_c :: "Regexp option"
  ShowTime_c :: bool
  Quiet :: bool
  ConnectTimeout_c :: duration
  ReadTimeout_c :: duration

definition emptyStats :: TestStats where
  "emptyStats = \<lparr>counts = (\<lambda>_. 0), StatsRun = 0, StatsRunTime = 0\<rparr>"

text \<open>
  The zero value \<^verbatim>\<open>TestRunContext{}\<close>; its nil log reader is the reader with no
  file and no name.
\<close>

definition emptyContext :: TestRunContext where
  "emptyContext =
     \<lparr>Include = None, Exclude = None, ShowTime = False, Output = False, Stats = emptyStats,
      Result = Success,
      LogLines = \<lparr>logFile = None, FileName = [], StartMarker = None, EndMarker = None\<rparr>,
      RunMode = DefaultRunMode\<rparr>"

definition notRunningInCloudMode :: "FTWCheck \<Rightarrow> bool" where
  "notRunningInCloudMode c = (\<not> CloudMode c)"

definition cleanLogs :: "Env \<Rightarrow> FTWLogLines \<Rightarrow> World \<Rightarrow> World" where
  "cleanLogs env logLines w =
     (case Cleanup env logLines w of
        (Some err, w) \<Rightarrow> emit (Logged ''Failed to cleanup log file'') w
      | (None, w) \<Rightarrow> w)"

definition overriddenTestResult :: "FTWCheck \<Rightarrow> string \<Rightarrow> TestResult" where
  "overriddenTestResult c testId =
     (if ForcedIgnore c testId then Ignored
      else if ForcedFail c testId then ForceFail
      else if ForcedPass c testId then ForcePass
      else Failed)"

definition displayResult :: "bool \<Rightarrow> TestResult \<Rightarrow> duration \<Rightarrow> duration \<Rightarrow> World \<Rightarrow> World" where
  "displayResult quiet result roundTripTime stageTime w =
     (case result of
        Success \<Rightarrow> printUnlessQuietMode quiet '':check_mark:passed in %s (RTT %s)'' [D stageTime, D roundTripTime] w
      | Failed \<Rightarrow> printUnlessQuietMode quiet '':collision:failed in %s (RTT %s)'' [D stageTime, D roundTripTime] w
      | Ignored \<Rightarrow> printUnlessQuietMode quiet '':information:test ignored'' [] w
      | ForceFail \<Rightarrow> printUnlessQuietMode quiet '':information:test forced to fail'' [] w
      | ForcePass \<Rightarrow> printUnlessQuietMode quiet '':information:test forced to pass'' [] w
      | Skipped \<Rightarrow> w)"

text \<open>
  \<^verbatim>\<open>checkResult\<close>. The check is the caller's own and is dropped after the call, so
  only the result and the world are returned.
\<close>

definition checkResult ::
  "Env \<Rightarrow> FTWCheck \<Rightarrow> Response option \<Rightarrow> error option \<Rightarrow> World \<Rightarrow> TestResult \<times> World" where
  "checkResult env c response responseError w =
     (case (case responseError of None \<Rightarrow> (False, w)
            | Some err \<Rightarrow> AssertExpectError c err w) of
        (True, w) \<Rightarrow> (Success, w)
      | (False, w) \<Rightarrow>
          (if responseError \<noteq> None then (Failed, w)
           else
             (let c = (if CloudMode c then SetCloudMode c else c) in
              case (case response of None \<Rightarrow> (None, w)
                    | Some r \<Rightarrow>
                        (case AssertStatus c (StatusCode r) w of
                           (True, w) \<Rightarrow> (Some Success, w)
                         | (False, w) \<Rightarrow>
                             (case AssertResponseContains c (Body r) w of
                                (True, w) \<Rightarrow> (Some Success, w)
                              | (False, w) \<Rightarrow> (None, w)))) of
                (Some result, w) \<Rightarrow> (result, w)
              | (None, w) \<Rightarrow>
                  (case AssertLogContains env c w of
                     (True, w) \<Rightarrow> (Success, w)
                   | (False, w) \<Rightarrow>
                       (case AssertNoLogContains env c w of
                          (True, w) \<Rightarrow> (Success, w)
                        | (False, w) \<Rightarrow> (Failed, w))))))"

definition getRequestFromTest :: "Env \<Rightarrow> Input \<Rightarrow> World \<Rightarrow> Request \<times> World" where
  "getRequestFromTest env testRequest w =
     (case getRawRequest env testRequest of
        (raw, err) \<Rightarrow>
          (let w = (case err of None \<Rightarrow> w
                    | Some e \<Rightarrow> emit (Logged (''ftw/run: error getting raw data: '' @ Error e)) w)
           in case raw of
                Some r \<Rightarrow> (NewRawRequest r (\<not> StopMagic testRequest), w)
              | None \<Rightarrow>
                  (let rline = \<lparr>Method_l = getMethod env testRequest, URI_l = getURI env testRequest,
                                 Version_l = getVersion env testRequest\<rparr>;
                       data = parseData env testRequest
                   in (NewRequest rline (Headers testRequest) data (\<not> StopMagic testRequest), w))))"

text \<open>
  \<^verbatim>\<open>markAndFlush\<close>. The loop over \<^verbatim>\<open>[20]int{}\<close> is a recursion on the number
  of attempts left; it yields \<open>Some\<close> of the value returned from inside the loop, or
  \<open>None\<close> when all attempts are used up.
\<close>

definition markerRequest :: "FTWConfiguration \<Rightarrow> string \<Rightarrow> Request" where
  "markerRequest cfg stageID =
     (let rline = \<lparr>Method_l = ''GET'', URI_l = ''/status/200'', Version_l = ''HTTP/1.1''\<rparr>;
          headers = [''Accept'' \<mapsto> ''*/*'', ''User-Agent'' \<mapsto> ''go-ftw test agent'',
                     ''Host'' \<mapsto> ''localhost'', LogMarkerHeaderName cfg \<mapsto> stageID]
      in NewRequest rline (Some headers) None True)"

fun markAndFlush_loop ::
  "Env \<Rightarrow> Destination \<Rightarrow> Request \<Rightarrow> string \<Rightarrow> nat \<Rightarrow> World \<Rightarrow> (error + bytes) option \<times> World" where
  "markAndFlush_loop env dest req stageID 0 w = (None, w)"
| "markAndFlush_loop env dest req stageID (Suc n) w =
     (case NewOrReusedConnection env dest w of
        (Some err, w) \<Rightarrow>
          (Some (Inl (Errorf (''ftw/run: can't connect to destination '' @ fmt_dest dest @ '': '') err)), w)
      | (None, w) \<Rightarrow>
          (case Do env req w of
             ((_, Some err), w) \<Rightarrow>
               (Some (Inl (Errorf (''ftw/run: failed sending request to '' @ fmt_dest dest @ '': '') err)), w)
           | ((_, None), w) \<Rightarrow>
               (case CheckLogForMarker env stageID w of
                  (Some marker, w) \<Rightarrow> (Some (Inr marker), w)
                | (None, w) \<Rightarrow> markAndFlush_loop env dest req stageID n w)))"

definition markAndFlush ::
  "Env \<Rightarrow> FTWConfiguration \<Rightarrow> TestRunContext \<Rightarrow> Destination \<Rightarrow> string \<Rightarrow> World
     \<Rightarrow> (error + bytes) \<times> World" where
  "markAndFlush env cfg runContext dest stageID w =
     (case markAndFlush_loop env dest (markerRequest cfg stageID) stageID 20 w of
        (Some r, w) \<Rightarrow> (r, w)
      | (None, w) \<Rightarrow> (Inl (MarkerNotFound (FileName (LogLines runContext))), w))"

text \<open>
  \<^verbatim>\<open>RunStage\<close>, in five parts that follow one another in the source: recording the
  result (from "Set expected test output in check"), the end marker, the real request
  (from \<^verbatim>\<open>getRequestFromTest\<close>), the destination with the start marker, and the
  beginning of the function up to the forced result. A marker that
  could not be acquired is nil. \<open>n\<close> is the number of the stage, under which the clock
  answers.
\<close>

definition RunStage_record ::
  "Env \<Rightarrow> FTWCheck \<Rightarrow> Test \<Rightarrow> Output \<Rightarrow> nat \<Rightarrow> Response option \<Rightarrow> error option
     \<Rightarrow> TestRunContext \<times> World \<Rightarrow> error option \<times> TestRunContext \<times> World" where
  "RunStage_record env ftwCheck testCase expectedOutput n response responseErr st =
     (case st of (runContext, w) \<Rightarrow>
        (let ftwCheck = SetExpectTestOutput ftwCheck expectedOutput in
         case checkResult env ftwCheck response responseErr w of
           (testResult, w) \<Rightarrow>
             (let roundTripTime = roundTripDuration env n;
                  stageTime = sinceStart env n;
                  runContext = runContext\<lparr>Stats := addResultToStats testResult (TestTitle testCase) (Stats runContext)\<rparr>;
                  runContext = runContext\<lparr>Result := testResult\<rparr>;
                  w = displayResult (Output runContext) testResult roundTripTime stageTime w;
                  runContext = runContext\<lparr>Stats := (Stats runContext)\<lparr>StatsRun := Suc (StatsRun (Stats runContext))\<rparr>\<rparr>;
                  runContext = runContext\<lparr>Stats := (Stats runContext)\<lparr>StatsRunTime := StatsRunTime (Stats runContext) + stageTime\<rparr>\<rparr>
              in (None, runContext, w))))"

definition RunStage_end ::
  "Env \<Rightarrow> FTWConfiguration \<Rightarrow> FTWCheck \<Rightarrow> Test \<Rightarrow> Output \<Rightarrow> nat \<Rightarrow> Destination \<Rightarrow> string
     \<Rightarrow> Response option \<Rightarrow> error option
     \<Rightarrow> TestRunContext \<times> World \<Rightarrow> error option \<times> TestRunContext \<times> World" where
  "RunStage_end env cfg ftwCheck testCase expectedOutput n dest stageID response responseErr st =
     (case st of (runContext, w) \<Rightarrow>
        (if notRunningInCloudMode ftwCheck then
           (case markAndFlush env cfg runContext dest stageID w of
              (Inl err, w) \<Rightarrow>
                (if \<not> ExpectError expectedOutput
                 then (Some (Errorf ''failed to find end marker: '' err), runContext, w)
                 else RunStage_record env (SetEndMarker ftwCheck None) testCase expectedOutput n
                        response responseErr (runContext, w))
            | (Inr endMarker, w) \<Rightarrow>
                RunStage_record env (SetEndMarker ftwCheck (Some endMarker)) testCase expectedOutput n
                  response responseErr (runContext, w))
         else RunStage_record env ftwCheck testCase expectedOutput n response responseErr (runContext, w)))"

definition RunStage_request ::
  "Env \<Rightarrow> FTWConfiguration \<Rightarrow> FTWCheck \<Rightarrow> Test \<Rightarrow> Input \<Rightarrow> Output \<Rightarrow> nat \<Rightarrow> Destination \<Rightarrow> string
     \<Rightarrow> TestRunContext \<times> World \<Rightarrow> error option \<times> TestRunContext \<times> World" where
  "RunStage_request env cfg ftwCheck testCase testRequest expectedOutput n dest stageID st =
     (case st of (runContext, w) \<Rightarrow>
        (case getRequestFromTest env testRequest w of
           (req, w) \<Rightarrow>
             (case NewConnection env dest w of
                (err, w) \<Rightarrow>
                  (if err \<noteq> None \<and> \<not> ExpectError expectedOutput then
                     (map_option (Errorf (''can't connect to destination '' @ fmt_dest dest @ '': '')) err,
                      runContext, w)
                   else
                     (case Do env req w of
                        ((response, responseErr), w) \<Rightarrow>
                          (if responseErr \<noteq> None \<and> \<not> ExpectError expectedOutput then
                             (map_option (Errorf (''failed sending request to destination '' @ fmt_dest dest @ '': ''))
                                responseErr,
                              runContext, w)
                           else RunStage_end env cfg ftwCheck testCase expectedOutput n dest stageID
                                  response responseErr (runContext, w)))))))"

definition RunStage_start ::
  "Env \<Rightarrow> FTWConfiguration \<Rightarrow> FTWCheck \<Rightarrow> Test \<Rightarrow> Input \<Rightarrow> Output \<Rightarrow> nat \<Rightarrow> string
     \<Rightarrow> TestRunContext \<times> World \<Rightarrow> error option \<times> TestRunContext \<times> World" where
  "RunStage_start env cfg ftwCheck testCase testRequest expectedOutput n stageID st =
     (case st of (runContext, w) \<Rightarrow>
        (let dest = \<lparr>DestAddr_d = getDestAddr env testRequest,
                     Port_d = getPort env testRequest,
                     Protocol_d = getProtocol env testRequest\<rparr>
         in if notRunningInCloudMode ftwCheck then
              (case markAndFlush env cfg runContext dest stageID w of
                 (Inl err, w) \<Rightarrow>
                   (if \<not> ExpectError expectedOutput
                    then (Some (Errorf ''failed to find start marker: '' err), runContext, w)
                    else RunStage_request env cfg (SetStartMarker ftwCheck None) testCase
                           testRequest expectedOutput n dest stageID (runContext, w))
               | (Inr startMarker, w) \<Rightarrow>
                   RunStage_request env cfg (SetStartMarker ftwCheck (Some startMarker)) testCase
                     testRequest expectedOutput n dest stageID (runContext, w))
            else RunStage_request env cfg ftwCheck testCase testRequest expectedOutput n
                   dest stageID (runContext, w)))"

definition RunStage ::
  "Env \<Rightarrow> FTWConfiguration \<Rightarrow> FTWCheck \<Rightarrow> Test \<Rightarrow> Stage
     \<Rightarrow> TestRunContext \<times> World \<Rightarrow> error option \<times> TestRunContext \<times> World" where
  "RunStage env cfg ftwCheck testCase stage st =
     (case st of (runContext, w) \<Rightarrow>
        (let n = stages w;
             stageID = newUUID env n;
             w = w\<lparr>stages := Suc n\<rparr>;
             testRequest = StageInput stage
         in case applyInputOverride cfg testRequest of
              (err, testRequest) \<Rightarrow>
                (let w = (case err of None \<Rightarrow> w
                          | Some e \<Rightarrow> emit (Logged (''ftw/run: problem overriding input: '' @ Error e)) w);
                     expectedOutput = StageOutput stage
                 in if checkTestSanity testRequest then (Some ErrBadTestRequest, runContext, w)
                    else
                      (let overridden = overriddenTestResult ftwCheck (TestTitle testCase) in
                       if overridden \<noteq> Failed then
                         (None,
                          runContext\<lparr>Stats := addResultToStats overridden (TestTitle testCase) (Stats runContext)\<rparr>,
                          displayResult (Output runContext) overridden 0 0 w)
                       else RunStage_start env cfg ftwCheck testCase testRequest expectedOutput n stageID
                              (runContext, w)))))"

text \<open>\<^verbatim>\<open>RunTest\<close>: the loop over the stages of a test case, and the loop over the test cases.\<close>

fun RunTest_stages ::
  "Env \<Rightarrow> FTWConfiguration \<Rightarrow> Test \<Rightarrow> Stage list
     \<Rightarrow> TestRunContext \<times> World \<Rightarrow> error option \<times> TestRunContext \<times> World" where
  "RunTest_stages env cfg testCase [] st = (None, st)"
| "RunTest_stages env cfg testCase (stage # rest) st =
     (let ftwCheck = NewCheck cfg in
      case RunStage env cfg ftwCheck testCase stage st of
        (Some err, st) \<Rightarrow> (Some err, st)
      | (None, st) \<Rightarrow> RunTest_stages env cfg testCase rest st)"

fun RunTest_cases ::
  "Env \<Rightarrow> FTWConfiguration \<Rightarrow> FTWTest \<Rightarrow> Test list \<Rightarrow> bool
     \<Rightarrow> TestRunContext \<times> World \<Rightarrow> error option \<times> TestRunContext \<times> World" where
  "RunTest_cases env cfg ftwTest [] changed st = (None, st)"
| "RunTest_cases env cfg ftwTest (testCase # rest) changed (runContext, w) =
     (if needToSkipTest (Include runContext) (Exclude runContext) (TestTitle testCase) (Enabled (Meta ftwTest))
      then
        (let runContext = runContext\<lparr>Stats := addResultToStats Skipped (TestTitle testCase) (Stats runContext)\<rparr>;
             w = (if \<not> Enabled (Meta ftwTest)
                  then printUnlessQuietMode (Output runContext) ''skipping %s'' [S (TestTitle testCase)] w
                  else w)
         in RunTest_cases env cfg ftwTest rest changed (runContext, w))
      else
        (let w = (if changed
                  then printUnlessQuietMode (Output runContext) '':point_right:executing tests in file %s''
                         [S (Name (Meta ftwTest))] w
                  else w);
             changed = False;
             w = printUnlessQuietMode (Output runContext) ''running %s: '' [S (TestTitle testCase)] w
         in case RunTest_stages env cfg testCase (Stages testCase) (runContext, w) of
              (Some err, st) \<Rightarrow> (Some err, st)
            | (None, st) \<Rightarrow> RunTest_cases env cfg ftwTest rest changed st))"

definition RunTest ::
  "Env \<Rightarrow> FTWConfiguration \<Rightarrow> FTWTest \<Rightarrow> TestRunContext \<times> World
     \<Rightarrow> error option \<times> TestRunContext \<times> World" where
  "RunTest env cfg ftwTest st = RunTest_cases env cfg ftwTest (Tests ftwTest) True st"

text \<open>
  \<^verbatim>\<open>Run\<close>. The statement \<^verbatim>\<open>defer cleanLogs(logLines)\<close> comes after the loop and
  the summary, so the deferred call runs only when the function returns from its last
  line; the returns before it leave without it.
\<close>

fun Run_tests ::
  "Env \<Rightarrow> FTWConfiguration \<Rightarrow> FTWTest list \<Rightarrow> TestRunContext \<times> World
     \<Rightarrow> error option \<times> TestRunContext \<times> World" where
  "Run_tests env cfg [] st = (None, st)"
| "Run_tests env cfg (tc # rest) st =
     (case RunTest env cfg tc st of
        (Some err, st) \<Rightarrow> (Some err, st)
      | (None, st) \<Rightarrow> Run_tests env cfg rest st)"

definition Run ::
  "Env \<Rightarrow> FTWConfiguration \<Rightarrow> FTWTest list \<Rightarrow> Config \<Rightarrow> World
     \<Rightarrow> (TestRunContext \<times> error option) \<times> World" where
  "Run env cfg tests c w =
     (let w = printUnlessQuietMode (Quiet c) '':rocket:Running go-ftw!'' [] w in
      case NewFTWLogLines env cfg [WithLogFile (LogFile cfg)] w of
        (Inl err, w) \<Rightarrow> ((emptyContext, Some err), w)
      | (Inr logLines, w) \<Rightarrow>
          (let conf = newClientConfig env;
               conf = (if ConnectTimeout_c c \<noteq> 0 then conf\<lparr>ConnectTimeout := ConnectTimeout_c c\<rparr> else conf);
               conf = (if ReadTimeout_c c \<noteq> 0 then conf\<lparr>ReadTimeout := ReadTimeout_c c\<rparr> else conf)
           in case newClient env conf of
                Some err \<Rightarrow> ((emptyContext, Some err), w)
              | None \<Rightarrow>
                  (let runContext =
                         \<lparr>Include = Include_c c, Exclude = Exclude_c c, ShowTime = ShowTime_c c,
                          Output = Quiet c, Stats = emptyStats, Result = Success,
                          LogLines = logLines, RunMode = ConfRunMode cfg\<rparr>
                   in case Run_tests env cfg tests (runContext, w) of
                        (Some err, st) \<Rightarrow> ((emptyContext, Some err), snd st)
                      | (None, (runContext, w)) \<Rightarrow>
                          (let w = printSummary (Quiet c) (Stats runContext) w;
                               w = cleanLogs env logLines w
                           in ((runContext, None), w)))))"

section \<open>Definitions used to state the properties\<close>

text \<open>How many of the three request-body forms of an input are set.\<close>

definition setForms :: "Input \<Rightarrow> nat" where
  "setForms t = length (filter (\<lambda>b. b) [IsNotEmpty (Data t), EncodedRequest t \<noteq> [], RAWRequest t \<noteq> []])"

text \<open>
  The Result Evaluator in the spec's words: an ordered list of checks, each with whether
  it holds; the checks are consulted from the front, the first that holds yields Success
  and ends the consultation, and Failed results when none holds. The second component is
  the list of the checks consulted.
\<close>

fun consult :: "(assertion \<times> bool) list \<Rightarrow> TestResult \<times> assertion list" where
  "consult [] = (Failed, [])"
| "consult ((a, holds) # rest) =
     (if holds then (Success, [a])
      else (case consult rest of (result, consulted) \<Rightarrow> (result, a # consulted)))"

definition asserted :: "assertion list \<Rightarrow> World \<Rightarrow> World" where
  "asserted as w = w\<lparr>trace := trace w @ map Asserted as\<rparr>"

text \<open>The value stored under a header name in an input, if any.\<close>

definition header_of :: "Input \<Rightarrow> string \<Rightarrow> string option" where
  "header_of t k = (case Headers t of None \<Rightarrow> None | Some h \<Rightarrow> h k)"

text \<open>The forced result configured for a test id, in the order the overrides are looked up.\<close>

definition forcedResult :: "FTWCheck \<Rightarrow> string \<Rightarrow> TestResult option" where
  "forcedResult c testId =
     (if ForcedIgnore c testId then Some Ignored
      else if ForcedFail c testId then Some ForceFail
      else if ForcedPass c testId then Some ForcePass
      else None)"

text \<open>
  Probe attempt \<open>j\<close> (counted from 0) of a marker synchronization that starts in world
  \<open>w\<close> completes: the connection is obtained and the probe request is sent without error.
  \<open>probeAnswer\<close> is what the log lookup of that attempt yields.
\<close>

definition attemptCompletes :: "Env \<Rightarrow> Destination \<Rightarrow> Request \<Rightarrow> World \<Rightarrow> nat \<Rightarrow> bool" where
  "attemptCompletes env dest req w j =
     (newOrReusedConnection env (conns w + j) dest = None \<and> snd (clientDo env (sends w + j) req) = None)"

definition probeAnswer :: "Env \<Rightarrow> string \<Rightarrow> World \<Rightarrow> nat \<Rightarrow> bytes option" where
  "probeAnswer env stageID w j = checkLogForMarker env (probes w + j) stageID"

text \<open>The world after one probe attempt that completed.\<close>

definition afterAttempt :: "Destination \<Rightarrow> Request \<Rightarrow> string \<Rightarrow> World \<Rightarrow> World" where
  "afterAttempt dest req stageID w =
     w\<lparr>conns := Suc (conns w), sends := Suc (sends w), probes := Suc (probes w),
       trace := trace w @ [Connected dest, Sent req, Probed stageID]\<rparr>"

text \<open>
  Measures on the statistics: the sum of the per-outcome counts, and the number of
  results recorded as Success or Failed. \<open>keeps\<close> relates a context to a later one
  with the same filters in which the executed count and the number of Success and Failed
  results have grown by the same amount; \<open>advances k s\<close> says that \<open>k\<close> results were
  recorded in between, \<open>s\<close> of them Skipped.
\<close>

definition totalCount :: "TestStats \<Rightarrow> nat" where
  "totalCount st = sum_list (map (counts st) [Success, Failed, Skipped, Ignored, ForceFail, ForcePass])"

definition judged :: "TestStats \<Rightarrow> nat" where
  "judged st = counts st Success + counts st Failed"

definition keeps :: "TestRunContext \<Rightarrow> TestRunContext \<Rightarrow> bool" where
  "keeps ctx ctx' =
     (Include ctx' = Include ctx \<and> Exclude ctx' = Exclude ctx \<and>
      StatsRun (Stats ctx') + judged (Stats ctx) = StatsRun (Stats ctx) + judged (Stats ctx'))"

definition advances :: "nat \<Rightarrow> nat \<Rightarrow> TestRunContext \<Rightarrow> TestRunContext \<Rightarrow> bool" where
  "advances k s ctx ctx' =
     (totalCount (Stats ctx') = totalCount (Stats ctx) + k \<and>
      counts (Stats ctx') Skipped = counts (Stats ctx) Skipped + s)"

text \<open>
  What holds of the outcome of a part of a run that started in context \<open>ctx\<close>: the
  context is kept in the sense above, and when the part ended without error, \<open>k\<close>
  results were recorded, \<open>s\<close> of them Skipped.
\<close>

definition runPost ::
  "nat \<Rightarrow> nat \<Rightarrow> TestRunContext \<Rightarrow> error option \<times> TestRunContext \<times> World \<Rightarrow> bool" where
  "runPost k s ctx r = (keeps ctx (fst (snd r)) \<and> (fst r = None \<longrightarrow> advances k s ctx (fst (snd r))))"



text \<open>The events of a world that concern the log file, oldest first.\<close>

definition fileEvents :: "World \<Rightarrow> event list" where
  "fileEvents w =
     filter (\<lambda>e. case e of OpenedFile name \<Rightarrow> True | ClosedFile f \<Rightarrow> True | _ \<Rightarrow> False) (trace w)"

text \<open>How often a log file was opened and closed in a world.\<close>

definition opens :: "World \<Rightarrow> nat" where
  "opens w = length (filter (\<lambda>e. case e of OpenedFile name \<Rightarrow> True | _ \<Rightarrow> False) (trace w))"

definition closes :: "World \<Rightarrow> nat" where
  "closes w = length (filter (\<lambda>e. case e of ClosedFile f \<Rightarrow> True | _ \<Rightarrow> False) (trace w))"

section \<open>Example values\<close>

definition ex_cfg :: FTWConfiguration where
  "ex_cfg =
     \<lparr>LogFile = ''waf.log'', ConfRunMode = DefaultRunMode, LogMarkerHeaderName = ''X-Marker'',
      OverrideInput = \<lparr>Port_o = None, DestAddr_o = None, Protocol_o = None\<rparr>,
      OverrideIgnore = (\<lambda>t. t = ''ignored-1''), OverrideForceFail = (\<lambda>t. t = ''forcefail-1''),
      OverrideForcePass = (\<lambda>t. t = ''forcepass-1'')\<rparr>"

definition ex_cloud_cfg :: FTWConfiguration where
  "ex_cloud_cfg = ex_cfg\<lparr>ConfRunMode := CloudRunMode\<rparr>"

definition ex_override_cfg :: FTWConfiguration where
  "ex_override_cfg =
     ex_cfg\<lparr>OverrideInput := \<lparr>Port_o = None, DestAddr_o = Some ''waf.example'', Protocol_o = None\<rparr>\<rparr>"

text \<open>
  An environment in which every connection and request succeeds with status 200, the
  marker shows up in the log at every second probe, and only \<^verbatim>\<open>waf.log\<close> can be
  opened.
\<close>

definition ex_env :: Env where
  "ex_env =
     \<lparr>newUUID = (\<lambda>n. ''stage-'' @ fmt_nat n),
      newClientConfig = \<lparr>ConnectTimeout = 3, ReadTimeout = 1\<rparr>,
      newClient = (\<lambda>conf. None),
      newConnection = (\<lambda>n dest. None),
      newOrReusedConnection = (\<lambda>n dest. None),
      clientDo = (\<lambda>n req. (Some \<lparr>StatusCode = 200, Body = ''ok''\<rparr>, None)),
      checkLogForMarker = (\<lambda>n stageID. if odd n then Some (''x-marker: '' @ stageID) else None),
      logWindow = (\<lambda>startMarker endMarker. ''id 920100 blocked''),
      osOpen = (\<lambda>name. if name = ''waf.log'' then (Some 3, None)
                        else (None, Some (External ''no such file or directory''))),
      fileClose = (\<lambda>f. None),
      roundTripDuration = (\<lambda>n. 5),
      sinceStart = (\<lambda>n. 9),
      getDestAddr = (\<lambda>t. case DestAddr t of None \<Rightarrow> ''localhost'' | Some a \<Rightarrow> a),
      getPort = (\<lambda>t. case Port t of None \<Rightarrow> 80 | Some p \<Rightarrow> p),
      getProtocol = (\<lambda>t. case Protocol t of None \<Rightarrow> ''http'' | Some p \<Rightarrow> p),
      getMethod = (\<lambda>t. case Method t of None \<Rightarrow> ''GET'' | Some m \<Rightarrow> m),
      getURI = (\<lambda>t. case URI t of None \<Rightarrow> ''/'' | Some u \<Rightarrow> u),
      getVersion = (\<lambda>t. case Version t of None \<Rightarrow> ''HTTP/1.1'' | Some v \<Rightarrow> v),
      parseData = Data,
      getRawRequest = (\<lambda>t. (if RAWRequest t \<noteq> [] then Some (RAWRequest t) else None, None))\<rparr>"

text \<open>The same environment with a log in which the marker never shows up.\<close>

definition ex_env_silent :: Env where
  "ex_env_silent = ex_env\<lparr>checkLogForMarker := (\<lambda>n stageID. None)\<rparr>"

definition ex_world :: World where
  "ex_world = \<lparr>conns = 0, sends = 0, probes = 0, stages = 0, trace = []\<rparr>"

definition ex_input :: Input where
  "ex_input =
     \<lparr>DestAddr = None, Port = None, Protocol = None, URI = Some ''/'', Version = None,
      Headers = Some [''Accept'' \<mapsto> ''*/*''], Method = None, Data = None,
      EncodedRequest = [], RAWRequest = [], StopMagic = False\<rparr>"

text \<open>An input that carries a Host header with an empty value.\<close>

definition ex_host_input :: Input where
  "ex_host_input = ex_input\<lparr>Headers := Some [''Host'' \<mapsto> []]\<rparr>"

text \<open>An input with two request-body forms set.\<close>

definition ex_bad_input :: Input where
  "ex_bad_input = ex_input\<lparr>EncodedRequest := ''R0VUIC8='', RAWRequest := ''GET /''\<rparr>"

definition ex_output :: Output where
  "ex_output =
     \<lparr>Status = [403], ResponseContains = [], LogContains = [''id 920100''], NoLogContains = [],
      ExpectError = False\<rparr>"

definition ex_nolog_output :: Output where
  "ex_nolog_output =
     \<lparr>Status = [403], ResponseContains = [], LogContains = [], NoLogContains = [''attack''],
      ExpectError = False\<rparr>"

definition ex_stage :: Stage where
  "ex_stage = \<lparr>StageInput = ex_input, StageOutput = ex_output\<rparr>"

definition ex_expect_stage :: Stage where
  "ex_expect_stage = \<lparr>StageInput = ex_input, StageOutput = ex_output\<lparr>ExpectError := True\<rparr>\<rparr>"

definition ex_bad_stage :: Stage where
  "ex_bad_stage = \<lparr>StageInput = ex_bad_input, StageOutput = ex_output\<rparr>"

definition ex_response :: Response where
  "ex_response = \<lparr>StatusCode = 200, Body = ''ok''\<rparr>"

definition ex_logLines :: FTWLogLines where
  "ex_logLines = \<lparr>logFile = Some 3, FileName = ''waf.log'', StartMarker = None, EndMarker = None\<rparr>"

definition ex_ctx :: TestRunContext where
  "ex_ctx = emptyContext\<lparr>LogLines := ex_logLines\<rparr>"

definition ex_dest :: Destination where
  "ex_dest = \<lparr>DestAddr_d = ''localhost'', Port_d = 80, Protocol_d = ''http''\<rparr>"

definition ex_config :: Config where
  "ex_config =
     \<lparr>Include_c = None, Exclude_c = None, ShowTime_c = False, Quiet = True,
      ConnectTimeout_c = 0, ReadTimeout_c = 0\<rparr>"

text \<open>The same environment when no connection for a probe can be obtained.\<close>

definition ex_env_refused :: Env where
  "ex_env_refused = ex_env\<lparr>newOrReusedConnection := (\<lambda>n dest. Some (External ''connection refused''))\<rparr>"

definition ex_test :: Test where
  "ex_test = \<lparr>TestTitle = ''920100-1'', Stages = [ex_stage]\<rparr>"

definition ex_disabled_test :: FTWTest where
  "ex_disabled_test = \<lparr>Meta = \<lparr>Enabled = False, Name = ''920100.yaml''\<rparr>, Tests = [ex_test, ex_test]\<rparr>"

definition ex_ftwtest :: FTWTest where
  "ex_ftwtest = \<lparr>Meta = \<lparr>Enabled = True, Name = ''920100.yaml''\<rparr>, Tests = [ex_test]\<rparr>"

text \<open>A test whose only stage sets two request-body forms.\<close>

definition ex_bad_ftwtest :: FTWTest where
  "ex_bad_ftwtest = \<lparr>Meta = \<lparr>Enabled = True, Name = ''920100.yaml''\<rparr>,
      Tests = [\<lparr>TestTitle = ''920100-1'', Stages = [ex_bad_stage]\<rparr>]\<rparr>"

text \<open>A test whose id is configured for a forced pass.\<close>

definition ex_forced_ftwtest :: FTWTest where
  "ex_forced_ftwtest = \<lparr>Meta = \<lparr>Enabled = True, Name = ''920100.yaml''\<rparr>,
      Tests = [\<lparr>TestTitle = ''forcepass-1'', Stages = [ex_stage]\<rparr>]\<rparr>"

section \<open>Auxiliary facts\<close>

subsection \<open>Input overrides and well-formedness\<close>

lemma applyInputOverride_sanity:
  "checkTestSanity (snd (applyInputOverride cfg t)) = checkTestSanity t"
  by (simp add: applyInputOverride_def checkTestSanity_def Let_def split: option.splits)

lemma checkTestSanity_setForms: "checkTestSanity t = (2 \<le> setForms t)"
  by (auto simp: checkTestSanity_def setForms_def)

subsection \<open>Forced results\<close>

lemma overridden_forced:
  "overriddenTestResult c t = (case forcedResult c t of None \<Rightarrow> Failed | Some r \<Rightarrow> r)"
  by (simp add: overriddenTestResult_def forcedResult_def)

lemma forced_not_Failed: "forcedResult c t = Some r \<Longrightarrow> r \<noteq> Failed"
  by (auto simp: forcedResult_def split: if_splits)

lemma displayResult_counters:
  "conns (displayResult q r a b w) = conns w \<and> sends (displayResult q r a b w) = sends w \<and>
   probes (displayResult q r a b w) = probes w \<and> stages (displayResult q r a b w) = stages w"
  by (cases r) (simp_all add: displayResult_def printUnlessQuietMode_def emit_def)

subsection \<open>The error returned by the parts of a stage\<close>

lemma RunStage_record_fst:
  "fst (RunStage_record env c tc out n resp rerr st) = None"
  by (simp add: RunStage_record_def Let_def split: prod.splits)

lemma RunStage_end_fst:
  "fst (RunStage_end env cfg c tc out n dest sid resp rerr st) \<noteq> Some ErrBadTestRequest"
  by (simp add: RunStage_end_def RunStage_record_fst split: prod.splits sum.splits)

lemma RunStage_request_fst:
  "fst (RunStage_request env cfg c tc inp out n dest sid st) \<noteq> Some ErrBadTestRequest"
  by (auto simp: RunStage_request_def RunStage_end_fst split: prod.splits)

lemma RunStage_start_fst:
  "fst (RunStage_start env cfg c tc inp out n sid st) \<noteq> Some ErrBadTestRequest"
  by (simp add: RunStage_start_def RunStage_request_fst Let_def split: prod.splits sum.splits)

lemma RunStage_end_expect:
  "ExpectError out \<Longrightarrow> fst (RunStage_end env cfg c tc out n dest sid resp rerr st) = None"
  by (simp add: RunStage_end_def RunStage_record_fst split: prod.splits sum.splits)

lemma RunStage_request_expect:
  "ExpectError out \<Longrightarrow> fst (RunStage_request env cfg c tc inp out n dest sid st) = None"
  by (simp add: RunStage_request_def RunStage_end_expect split: prod.splits)

lemma RunStage_unfold:
  "RunStage env cfg c tc stage (ctx, w) =
     (let t = snd (applyInputOverride cfg (StageInput stage)); w1 = w\<lparr>stages := Suc (stages w)\<rparr> in
      if checkTestSanity (StageInput stage) then (Some ErrBadTestRequest, ctx, w1)
      else case forcedResult c (TestTitle tc) of
             Some r \<Rightarrow> (None, ctx\<lparr>Stats := addResultToStats r (TestTitle tc) (Stats ctx)\<rparr>,
                         displayResult (Output ctx) r 0 0 w1)
           | None \<Rightarrow> RunStage_start env cfg c tc t (StageOutput stage) (stages w)
                       (newUUID env (stages w)) (ctx, w1))"
proof -
  obtain e t where ov: "applyInputOverride cfg (StageInput stage) = (e, t)"
    by (cases "applyInputOverride cfg (StageInput stage)")
  have e: "e = None"
    using ov by (simp add: applyInputOverride_def Let_def)
  have t: "checkTestSanity t = checkTestSanity (StageInput stage)"
    using applyInputOverride_sanity [of cfg "StageInput stage"] ov by simp
  show ?thesis
    by (auto simp: RunStage_def Let_def ov e t overridden_forced
        split: option.splits dest: forced_not_Failed)
qed

subsection \<open>The probe loop of the marker synchronization\<close>

lemma afterAttempt_counters [simp]:
  "conns (afterAttempt dest req sid w) = Suc (conns w)"
  "sends (afterAttempt dest req sid w) = Suc (sends w)"
  "probes (afterAttempt dest req sid w) = Suc (probes w)"
  "stages (afterAttempt dest req sid w) = stages w"
  by (simp_all add: afterAttempt_def)

lemma loop_step_none:
  assumes "attemptCompletes env dest req w 0" and "probeAnswer env sid w 0 = None"
  shows "markAndFlush_loop env dest req sid (Suc n) w =
         markAndFlush_loop env dest req sid n (afterAttempt dest req sid w)"
  using assms
  by (auto simp: attemptCompletes_def probeAnswer_def NewOrReusedConnection_def Do_def
      CheckLogForMarker_def emit_def afterAttempt_def split: prod.splits option.splits)

lemma loop_step_found:
  assumes "attemptCompletes env dest req w 0" and "probeAnswer env sid w 0 = Some m"
  shows "markAndFlush_loop env dest req sid (Suc n) w = (Some (Inr m), afterAttempt dest req sid w)"
  using assms
  by (auto simp: attemptCompletes_def probeAnswer_def NewOrReusedConnection_def Do_def
      CheckLogForMarker_def emit_def afterAttempt_def split: prod.splits option.splits)

lemma attempt_shift:
  "attemptCompletes env dest req (afterAttempt dest req sid w) j = attemptCompletes env dest req w (Suc j)"
  "probeAnswer env sid (afterAttempt dest req sid w) j = probeAnswer env sid w (Suc j)"
  by (simp_all add: attemptCompletes_def probeAnswer_def)

lemma loop_exhausted:
  "(\<forall>j<n. attemptCompletes env dest req w j \<and> probeAnswer env sid w j = None) \<Longrightarrow>
   fst (markAndFlush_loop env dest req sid n w) = None \<and>
   conns (snd (markAndFlush_loop env dest req sid n w)) = conns w + n \<and>
   sends (snd (markAndFlush_loop env dest req sid n w)) = sends w + n \<and>
   probes (snd (markAndFlush_loop env dest req sid n w)) = probes w + n"
proof (induction n arbitrary: w)
  case 0
  then show ?case by simp
next
  case (Suc n)
  have first: "attemptCompletes env dest req w 0" "probeAnswer env sid w 0 = None"
    using Suc.prems by auto
  have rest: "\<forall>j<n. attemptCompletes env dest req (afterAttempt dest req sid w) j \<and>
                 probeAnswer env sid (afterAttempt dest req sid w) j = None"
    using Suc.prems by (simp add: attempt_shift)
  show ?case
    using Suc.IH [OF rest] by (simp add: loop_step_none [OF first] del: markAndFlush_loop.simps)
qed

lemma loop_found:
  "k < n \<Longrightarrow> (\<forall>j\<le>k. attemptCompletes env dest req w j) \<Longrightarrow>
   (\<forall>j<k. probeAnswer env sid w j = None) \<Longrightarrow> probeAnswer env sid w k = Some m \<Longrightarrow>
   fst (markAndFlush_loop env dest req sid n w) = Some (Inr m) \<and>
   conns (snd (markAndFlush_loop env dest req sid n w)) = conns w + Suc k \<and>
   sends (snd (markAndFlush_loop env dest req sid n w)) = sends w + Suc k \<and>
   probes (snd (markAndFlush_loop env dest req sid n w)) = probes w + Suc k"
proof (induction n arbitrary: w k)
  case 0
  then show ?case by simp
next
  case (Suc n)
  have first: "attemptCompletes env dest req w 0"
    using Suc.prems(2) by simp
  show ?case
  proof (cases k)
    case 0
    then show ?thesis
      using Suc.prems(4) by (simp add: loop_step_found [OF first] del: markAndFlush_loop.simps)
  next
    case (Suc k')
    have none: "probeAnswer env sid w 0 = None"
      using Suc.prems(3) Suc by simp
    have a: "k' < n" using Suc.prems(1) Suc by simp
    have b: "\<forall>j\<le>k'. attemptCompletes env dest req (afterAttempt dest req sid w) j"
      using Suc.prems(2) Suc by (simp add: attempt_shift)
    have c: "\<forall>j<k'. probeAnswer env sid (afterAttempt dest req sid w) j = None"
      using Suc.prems(3) Suc by (simp add: attempt_shift)
    have d: "probeAnswer env sid (afterAttempt dest req sid w) k' = Some m"
      using Suc.prems(4) Suc by (simp add: attempt_shift)
    show ?thesis
      using Suc.IH [OF a b c d] Suc by (simp add: loop_step_none [OF first none] del: markAndFlush_loop.simps)
  qed
qed

lemma markAndFlush_exhausted:
  assumes "\<forall>j<20. attemptCompletes env dest (markerRequest cfg sid) w j \<and> probeAnswer env sid w j = None"
  shows "fst (markAndFlush env cfg ctx dest sid w) = Inl (MarkerNotFound (FileName (LogLines ctx))) \<and>
         probes (snd (markAndFlush env cfg ctx dest sid w)) = probes w + 20 \<and>
         sends (snd (markAndFlush env cfg ctx dest sid w)) = sends w + 20"
proof -
  obtain r w' where l: "markAndFlush_loop env dest (markerRequest cfg sid) sid 20 w = (r, w')"
    by (cases "markAndFlush_loop env dest (markerRequest cfg sid) sid 20 w")
  have "r = None \<and> probes w' = probes w + 20 \<and> sends w' = sends w + 20"
    using loop_exhausted [OF assms] l by simp
  then show ?thesis
    by (simp add: markAndFlush_def l)
qed

lemma markAndFlush_found:
  assumes "k < 20" and "\<forall>j\<le>k. attemptCompletes env dest (markerRequest cfg sid) w j"
    and "\<forall>j<k. probeAnswer env sid w j = None" and "probeAnswer env sid w k = Some m"
  shows "fst (markAndFlush env cfg ctx dest sid w) = Inr m \<and>
         probes (snd (markAndFlush env cfg ctx dest sid w)) = probes w + Suc k \<and>
         sends (snd (markAndFlush env cfg ctx dest sid w)) = sends w + Suc k"
proof -
  obtain r w' where l: "markAndFlush_loop env dest (markerRequest cfg sid) sid 20 w = (r, w')"
    by (cases "markAndFlush_loop env dest (markerRequest cfg sid) sid 20 w")
  have "r = Some (Inr m) \<and> probes w' = probes w + Suc k \<and> sends w' = sends w + Suc k"
    using loop_found [OF assms] l by simp
  then show ?thesis
    by (simp add: markAndFlush_def l)
qed

lemma attempt_stages [simp]:
  "attemptCompletes env dest req (w\<lparr>stages := x\<rparr>) j = attemptCompletes env dest req w j"
  "probeAnswer env sid (w\<lparr>stages := x\<rparr>) j = probeAnswer env sid w j"
  by (simp_all add: attemptCompletes_def probeAnswer_def)

lemma refused_markAndFlush:
  "markAndFlush ex_env_refused cfg ctx dest sid w =
     (Inl (Errorf (''ftw/run: can't connect to destination '' @ fmt_dest dest @ '': '')
             (External ''connection refused'')),
      emit (Connected dest) (w\<lparr>conns := Suc (conns w)\<rparr>))"
  by (simp add: markAndFlush_def numeral_eq_Suc NewOrReusedConnection_def ex_env_refused_def ex_env_def)

subsection \<open>Skipped test cases and the construction of the log reader\<close>

lemma RunTest_cases_all_skipped:
  "\<forall>tc \<in> set tcs. needToSkipTest (Include ctx) (Exclude ctx) (TestTitle tc) (Enabled (Meta t)) \<Longrightarrow>
   fst (RunTest_cases env cfg t tcs changed (ctx, w)) = None \<and>
   counts (Stats (fst (snd (RunTest_cases env cfg t tcs changed (ctx, w))))) Skipped =
     counts (Stats ctx) Skipped + length tcs \<and>
   (\<forall>k. k \<noteq> Skipped \<longrightarrow>
      counts (Stats (fst (snd (RunTest_cases env cfg t tcs changed (ctx, w))))) k = counts (Stats ctx) k) \<and>
   StatsRun (Stats (fst (snd (RunTest_cases env cfg t tcs changed (ctx, w))))) = StatsRun (Stats ctx) \<and>
   stages (snd (snd (RunTest_cases env cfg t tcs changed (ctx, w)))) = stages w \<and>
   conns (snd (snd (RunTest_cases env cfg t tcs changed (ctx, w)))) = conns w \<and>
   sends (snd (snd (RunTest_cases env cfg t tcs changed (ctx, w)))) = sends w \<and>
   probes (snd (snd (RunTest_cases env cfg t tcs changed (ctx, w)))) = probes w"
proof (induction tcs arbitrary: ctx w)
  case Nil
  then show ?case by simp
next
  case (Cons tc tcs)
  let ?ctx = "ctx\<lparr>Stats := addResultToStats Skipped (TestTitle tc) (Stats ctx)\<rparr>"
  let ?w = "if \<not> Enabled (Meta t)
            then printUnlessQuietMode (Output ctx) ''skipping %s'' [S (TestTitle tc)] w else w"
  have skip: "needToSkipTest (Include ctx) (Exclude ctx) (TestTitle tc) (Enabled (Meta t))"
    using Cons.prems by simp
  have step: "RunTest_cases env cfg t (tc # tcs) changed (ctx, w) =
              RunTest_cases env cfg t tcs changed (?ctx, ?w)"
    using skip by (simp add: Let_def)
  have rest: "\<forall>tc \<in> set tcs. needToSkipTest (Include ?ctx) (Exclude ?ctx) (TestTitle tc) (Enabled (Meta t))"
    using Cons.prems by simp
  have w: "stages ?w = stages w" "conns ?w = conns w" "sends ?w = sends w" "probes ?w = probes w"
    by (simp_all add: printUnlessQuietMode_def emit_def)
  show ?case
    using Cons.IH [OF rest, of ?w] by (simp add: step w addResultToStats_def del: RunTest_cases.simps)
qed

lemma fold_applyOption_logFile: "logFile (fold applyOption opts ll) = logFile ll"
proof (induction opts arbitrary: ll)
  case Nil
  then show ?case by simp
next
  case (Cons opt opts)
  then show ?case by (cases opt) simp_all
qed

subsection \<open>The result evaluator yields Success or Failed\<close>


lemma checkResult_consult:
  "checkResult env c response responseError w =
     (case responseError of
        Some err \<Rightarrow>
          (if ExpectError (expected c) then Success else Failed, asserted [ExpectErrorAssertion] w)
      | None \<Rightarrow>
          (let c' = (if CloudMode c then SetCloudMode c else c);
               checks =
                 (case response of None \<Rightarrow> []
                  | Some r \<Rightarrow> [(StatusAssertion, statusHolds c' (StatusCode r)),
                               (ResponseAssertion, responseHolds c' (Body r))]) @
                 [(LogAssertion, logHolds env c'), (NoLogAssertion, noLogHolds env c')]
           in case consult checks of (result, consulted) \<Rightarrow> (result, asserted consulted w)))"
  by (simp add: checkResult_def Let_def asserted_def emit_def AssertExpectError_def
      AssertStatus_def AssertResponseContains_def AssertLogContains_def AssertNoLogContains_def
      split: option.splits)


subsection \<open>What a stage does to the statistics\<close>

lemma keeps_refl [simp]: "keeps ctx ctx"
  by (simp add: keeps_def)



lemma addResultToStats_simps [simp]:
  "counts (addResultToStats r t st) k = (if k = r then Suc (counts st k) else counts st k)"
  "StatsRun (addResultToStats r t st) = StatsRun st"
  "StatsRunTime (addResultToStats r t st) = StatsRunTime st"
  by (simp_all add: addResultToStats_def)

lemma totalCount_add [simp]: "totalCount (addResultToStats r t st) = Suc (totalCount st)"
  by (cases r) (simp_all add: totalCount_def)

lemma totalCount_upd [simp]:
  "totalCount (st\<lparr>StatsRun := a\<rparr>) = totalCount st"
  "totalCount (st\<lparr>StatsRunTime := b\<rparr>) = totalCount st"
  by (simp_all add: totalCount_def)

lemma judged_upd [simp]:
  "judged (st\<lparr>StatsRun := a\<rparr>) = judged st"
  "judged (st\<lparr>StatsRunTime := b\<rparr>) = judged st"
  by (simp_all add: judged_def)


lemma runPost_abort [simp]: "runPost k s ctx (Some e, ctx, w)"
  by (simp add: runPost_def)







subsection \<open>What the loops of a run do to the statistics\<close>






lemma emptyStats_measures [simp]:
  "StatsRun emptyStats = 0" "judged emptyStats = 0" "totalCount emptyStats = 0"
  "counts emptyStats k = 0"
  by (simp_all add: emptyStats_def judged_def totalCount_def)

subsection \<open>Example runs\<close>


lemmas run_defs = Run_def Let_def NewFTWLogLines_def openLogFile_def emit_def
      printUnlessQuietMode_def RunTest_def needToSkipTest_def RunStage_unfold checkTestSanity_def
      IsNotEmpty_def forcedResult_def ForcedIgnore_def ForcedFail_def ForcedPass_def NewCheck_def
      displayResult_def printSummary_def cleanLogs_def Cleanup_def

lemma ex_bad_run:
  "Run ex_env ex_cfg [ex_bad_ftwtest] ex_config ex_world =
     ((emptyContext, Some ErrBadTestRequest),
      \<lparr>conns = 0, sends = 0, probes = 0, stages = 1, trace = [OpenedFile ''waf.log'']\<rparr>)"
  by (simp add: run_defs ex_cfg_def ex_env_def
      ex_config_def ex_world_def ex_bad_ftwtest_def ex_bad_stage_def ex_bad_input_def ex_input_def
      ex_output_def ex_logLines_def)



subsection \<open>Which parts of a run touch the log file\<close>

lemma fileEvents_emit:
  "fileEvents (emit e w) =
     fileEvents w @ (case e of OpenedFile name \<Rightarrow> [e] | ClosedFile f \<Rightarrow> [e] | _ \<Rightarrow> [])"
  by (cases e) (simp_all add: fileEvents_def emit_def)

lemma fileEvents_upd [simp]:
  "fileEvents (w\<lparr>conns := a\<rparr>) = fileEvents w"
  "fileEvents (w\<lparr>sends := b\<rparr>) = fileEvents w"
  "fileEvents (w\<lparr>probes := c\<rparr>) = fileEvents w"
  "fileEvents (w\<lparr>stages := d\<rparr>) = fileEvents w"
  by (simp_all add: fileEvents_def)

lemma fileEvents_print [simp]: "fileEvents (printUnlessQuietMode q f a w) = fileEvents w"
  by (simp add: printUnlessQuietMode_def fileEvents_emit)

lemma fileEvents_client [simp]:
  "fileEvents (snd (NewConnection env dest w)) = fileEvents w"
  "fileEvents (snd (NewOrReusedConnection env dest w)) = fileEvents w"
  "fileEvents (snd (Do env req w)) = fileEvents w"
  "fileEvents (snd (CheckLogForMarker env sid w)) = fileEvents w"
  by (simp_all add: NewConnection_def NewOrReusedConnection_def Do_def CheckLogForMarker_def
      fileEvents_emit)

lemma fileEvents_loop [simp]:
  "fileEvents (snd (markAndFlush_loop env dest req sid n w)) = fileEvents w"
proof (induction n arbitrary: w)
  case 0
  then show ?case by simp
next
  case (Suc n)
  obtain e1 w1 where a: "NewOrReusedConnection env dest w = (e1, w1)"
    by (cases "NewOrReusedConnection env dest w")
  obtain r2 e2 w2 where b: "Do env req w1 = ((r2, e2), w2)"
    by (cases "Do env req w1") auto
  obtain m w3 where c: "CheckLogForMarker env sid w2 = (m, w3)"
    by (cases "CheckLogForMarker env sid w2")
  have w1: "fileEvents w1 = fileEvents w"
    using fileEvents_client(2) [of env dest w] a by simp
  have w2: "fileEvents w2 = fileEvents w1"
    using fileEvents_client(3) [of env req w1] b by simp
  have w3: "fileEvents w3 = fileEvents w2"
    using fileEvents_client(4) [of env sid w2] c by simp
  show ?case
    using Suc.IH [of w3] by (simp add: a b c w1 w2 w3 split: option.splits)
qed

lemma fileEvents_markAndFlush [simp]:
  "fileEvents (snd (markAndFlush env cfg ctx dest sid w)) = fileEvents w"
proof -
  obtain r w' where l: "markAndFlush_loop env dest (markerRequest cfg sid) sid 20 w = (r, w')"
    by (cases "markAndFlush_loop env dest (markerRequest cfg sid) sid 20 w")
  have "fileEvents w' = fileEvents w"
    using fileEvents_loop [of env dest "markerRequest cfg sid" sid 20 w] l by simp
  then show ?thesis
    by (simp add: markAndFlush_def l split: option.splits)
qed

lemma fileEvents_asserted [simp]: "fileEvents (asserted as w) = fileEvents w"
  by (induction as) (simp_all add: asserted_def fileEvents_def)

lemma fileEvents_checkResult [simp]:
  "fileEvents (snd (checkResult env c resp rerr w)) = fileEvents w"
  by (simp add: checkResult_consult Let_def split: option.splits prod.splits)

lemma fileEvents_display [simp]: "fileEvents (displayResult q r a b w) = fileEvents w"
  by (cases r) (simp_all add: displayResult_def)

lemma fileEvents_request [simp]: "fileEvents (snd (getRequestFromTest env t w)) = fileEvents w"
  by (simp add: getRequestFromTest_def Let_def fileEvents_emit split: prod.splits option.splits)

lemma fileEvents_record [simp]:
  "fileEvents (snd (snd (RunStage_record env c tc out n resp rerr (ctx, w)))) = fileEvents w"
proof -
  obtain r w' where cr: "checkResult env (SetExpectTestOutput c out) resp rerr w = (r, w')"
    by (cases "checkResult env (SetExpectTestOutput c out) resp rerr w")
  have "fileEvents w' = fileEvents w"
    using fileEvents_checkResult [of env "SetExpectTestOutput c out" resp rerr w] cr by simp
  then show ?thesis
    by (simp add: RunStage_record_def Let_def cr)
qed

lemma fileEvents_end [simp]:
  "fileEvents (snd (snd (RunStage_end env cfg c tc out n dest sid resp rerr (ctx, w)))) = fileEvents w"
proof -
  obtain r w' where m: "markAndFlush env cfg ctx dest sid w = (r, w')"
    by (cases "markAndFlush env cfg ctx dest sid w")
  have "fileEvents w' = fileEvents w"
    using fileEvents_markAndFlush [of env cfg ctx dest sid w] m by simp
  then show ?thesis
    by (simp add: RunStage_end_def m split: sum.splits)
qed

lemma fileEvents_stage_request [simp]:
  "fileEvents (snd (snd (RunStage_request env cfg c tc inp out n dest sid (ctx, w)))) = fileEvents w"
proof -
  obtain req w1 where a: "getRequestFromTest env inp w = (req, w1)"
    by (cases "getRequestFromTest env inp w")
  obtain e w2 where b: "NewConnection env dest w1 = (e, w2)"
    by (cases "NewConnection env dest w1")
  obtain resp rerr w3 where d: "Do env req w2 = ((resp, rerr), w3)"
    by (cases "Do env req w2") auto
  have w1: "fileEvents w1 = fileEvents w"
    using fileEvents_request [of env inp w] a by simp
  have w2: "fileEvents w2 = fileEvents w1"
    using fileEvents_client(1) [of env dest w1] b by simp
  have w3: "fileEvents w3 = fileEvents w2"
    using fileEvents_client(3) [of env req w2] d by simp
  show ?thesis
    by (simp add: RunStage_request_def a b d w1 w2 w3)
qed

lemma fileEvents_start [simp]:
  "fileEvents (snd (snd (RunStage_start env cfg c tc inp out n sid (ctx, w)))) = fileEvents w"
proof -
  let ?dest = "\<lparr>DestAddr_d = getDestAddr env inp, Port_d = getPort env inp, Protocol_d = getProtocol env inp\<rparr>"
  obtain r w' where m: "markAndFlush env cfg ctx ?dest sid w = (r, w')"
    by (cases "markAndFlush env cfg ctx ?dest sid w")
  have "fileEvents w' = fileEvents w"
    using fileEvents_markAndFlush [of env cfg ctx ?dest sid w] m by simp
  then show ?thesis
    by (simp add: RunStage_start_def Let_def m split: sum.splits)
qed

lemma fileEvents_RunStage [simp]:
  "fileEvents (snd (snd (RunStage env cfg c tc stage (ctx, w)))) = fileEvents w"
  by (simp add: RunStage_unfold Let_def split: option.splits)

lemma fileEvents_stages [simp]:
  "fileEvents (snd (snd (RunTest_stages env cfg tc ss (ctx, w)))) = fileEvents w"
proof (induction ss arbitrary: ctx w)
  case Nil
  then show ?case by simp
next
  case (Cons stage ss)
  obtain e ctx1 w1 where r: "RunStage env cfg (NewCheck cfg) tc stage (ctx, w) = (e, ctx1, w1)"
    by (cases "RunStage env cfg (NewCheck cfg) tc stage (ctx, w)")
  have "fileEvents w1 = fileEvents w"
    using fileEvents_RunStage [of env cfg "NewCheck cfg" tc stage ctx w] r by simp
  then show ?case
    using Cons.IH [of ctx1 w1] by (simp add: r Let_def split: option.splits)
qed

lemma fileEvents_cases [simp]:
  "fileEvents (snd (snd (RunTest_cases env cfg t tcs changed (ctx, w)))) = fileEvents w"
proof (induction tcs arbitrary: ctx w changed)
  case Nil
  then show ?case by simp
next
  case (Cons tc tcs)
  let ?w = "printUnlessQuietMode (Output ctx) ''running %s: '' [S (TestTitle tc)]
              (if changed
               then printUnlessQuietMode (Output ctx) '':point_right:executing tests in file %s''
                      [S (Name (Meta t))] w
               else w)"
  obtain e ctx1 w1 where r: "RunTest_stages env cfg tc (Stages tc) (ctx, ?w) = (e, ctx1, w1)"
    by (cases "RunTest_stages env cfg tc (Stages tc) (ctx, ?w)")
  have "fileEvents w1 = fileEvents ?w"
    using fileEvents_stages [of env cfg tc "Stages tc" ctx ?w] r by simp
  then have w1: "fileEvents w1 = fileEvents w"
    by simp
  show ?case
    using Cons.IH w1 by (simp add: r Let_def split: option.splits)
qed

lemma fileEvents_Run_tests [simp]:
  "fileEvents (snd (snd (Run_tests env cfg tests (ctx, w)))) = fileEvents w"
proof (induction tests arbitrary: ctx w)
  case Nil
  then show ?case by simp
next
  case (Cons t tests)
  obtain e ctx1 w1 where r: "RunTest env cfg t (ctx, w) = (e, ctx1, w1)"
    by (cases "RunTest env cfg t (ctx, w)")
  have "fileEvents (snd (snd (RunTest env cfg t (ctx, w)))) = fileEvents w"
    by (simp add: RunTest_def)
  then have "fileEvents w1 = fileEvents w"
    by (simp add: r)
  then show ?case
    using Cons.IH [of ctx1 w1] by (simp add: r split: option.splits)
qed

lemma fileEvents_cleanLogs:
  "fileEvents (cleanLogs env ll w) =
     fileEvents w @ (case logFile ll of Some f \<Rightarrow> [ClosedFile f] | None \<Rightarrow> [])"
  by (simp add: cleanLogs_def Cleanup_def fileEvents_emit split: option.splits)

lemma fileEvents_summary [simp]: "fileEvents (printSummary q st w) = fileEvents w"
  by (simp add: printSummary_def fileEvents_emit)

text \<open>
  The log file over a whole run: after the construction of the log reader nothing opens
  or closes a file except the cleanup, and the cleanup happens exactly when \<^verbatim>\<open>Run\<close>
  returns no error.
\<close>

lemma Run_fileEvents:
  "fileEvents (snd (Run env cfg tests c w)) =
     (case NewFTWLogLines env cfg [WithLogFile (LogFile cfg)]
             (printUnlessQuietMode (Quiet c) '':rocket:Running go-ftw!'' [] w) of
        (Inl err, w1) \<Rightarrow> fileEvents w1
      | (Inr logLines, w1) \<Rightarrow>
          fileEvents w1 @
          (if snd (fst (Run env cfg tests c w)) = None
           then (case logFile logLines of Some f \<Rightarrow> [ClosedFile f] | None \<Rightarrow> [])
           else []))"
proof -
  let ?w = "printUnlessQuietMode (Quiet c) '':rocket:Running go-ftw!'' [] w"
  obtain l w1 where n: "NewFTWLogLines env cfg [WithLogFile (LogFile cfg)] ?w = (l, w1)"
    by (cases "NewFTWLogLines env cfg [WithLogFile (LogFile cfg)] ?w")
  show ?thesis
  proof (cases l)
    case (Inl err)
    then show ?thesis
      by (simp add: Run_def Let_def n)
  next
    case (Inr logLines)
    let ?conf = "newClientConfig env"
    let ?conf1 = "if ConnectTimeout_c c \<noteq> 0 then ?conf\<lparr>ConnectTimeout := ConnectTimeout_c c\<rparr> else ?conf"
    let ?conf2 = "if ReadTimeout_c c \<noteq> 0 then ?conf1\<lparr>ReadTimeout := ReadTimeout_c c\<rparr> else ?conf1"
    show ?thesis
    proof (cases "newClient env ?conf2")
      case (Some err)
      then show ?thesis
        by (simp add: Run_def Let_def n Inr)
    next
      case None
      let ?ctx = "\<lparr>Include = Include_c c, Exclude = Exclude_c c, ShowTime = ShowTime_c c,
                    Output = Quiet c, Stats = emptyStats, Result = Success,
                    LogLines = logLines, RunMode = ConfRunMode cfg\<rparr>"
      obtain e ctx' w' where r: "Run_tests env cfg tests (?ctx, w1) = (e, ctx', w')"
        by (cases "Run_tests env cfg tests (?ctx, w1)")
      have w': "fileEvents w' = fileEvents w1"
        using fileEvents_Run_tests [of env cfg tests ?ctx w1] r by simp
      show ?thesis
        by (cases e) (simp_all add: Run_def Let_def n Inr None r w' fileEvents_cleanLogs)
    qed
  qed
qed

section \<open>The properties\<close>

lemmas ex_defs = ex_cfg_def ex_cloud_cfg_def ex_override_cfg_def ex_env_def ex_env_silent_def
  ex_world_def ex_input_def ex_host_input_def ex_bad_input_def ex_output_def ex_nolog_output_def
  ex_stage_def ex_expect_stage_def ex_bad_stage_def ex_response_def ex_logLines_def ex_ctx_def
  ex_dest_def ex_config_def emptyContext_def emptyStats_def ex_env_refused_def ex_test_def ex_disabled_test_def
  ex_ftwtest_def ex_bad_ftwtest_def ex_forced_ftwtest_def

subsection \<open>C1: the result evaluator\<close>

text \<open>
  C1, as amended. \<^verbatim>\<open>checkResult\<close>: when a transport error occurred, the result is
  Success if the expected output declares that an error is expected and Failed otherwise,
  and only the error assertion is consulted. When no error occurred, cloud mode first
  disables the log expectations; then the checks are consulted in the fixed order status,
  response body (these two only when a response is present), log contains, log does not
  contain; the first check that holds yields Success and no later check is consulted;
  when none holds the result is Failed.
\<close>

theorem C1_checkResult_precedence:
  "checkResult env c response responseError w =
     (case responseError of
        Some err \<Rightarrow>
          (if ExpectError (expected c) then Success else Failed, asserted [ExpectErrorAssertion] w)
      | None \<Rightarrow>
          (let c' = (if CloudMode c then SetCloudMode c else c);
               checks =
                 (case response of None \<Rightarrow> []
                  | Some r \<Rightarrow> [(StatusAssertion, statusHolds c' (StatusCode r)),
                               (ResponseAssertion, responseHolds c' (Body r))]) @
                 [(LogAssertion, logHolds env c'), (NoLogAssertion, noLogHolds env c')]
           in case consult checks of (result, consulted) \<Rightarrow> (result, asserted consulted w)))"
  by (simp add: checkResult_def Let_def asserted_def emit_def AssertExpectError_def
      AssertStatus_def AssertResponseContains_def AssertLogContains_def AssertNoLogContains_def
      split: option.splits)

theorem C1_checkResult_witness:
  "checkResult ex_env (SetExpectTestOutput (NewCheck ex_cfg) ex_output) (Some ex_response) None ex_world =
     (Success, asserted [StatusAssertion, ResponseAssertion, LogAssertion] ex_world)"
  using C1_checkResult_precedence
    [of ex_env "SetExpectTestOutput (NewCheck ex_cfg) ex_output" "Some ex_response" None ex_world]
  by (simp add: ex_defs SetExpectTestOutput_def NewCheck_def CloudMode_def statusHolds_def
      responseHolds_def logHolds_def noLogHolds_def window_def sublist_Cons_right prefix_code Let_def)

text \<open>
  In cloud mode, a stage that expects a substring to be absent from the log, with a log
  window that does not contain it, a status outside the expected set and no expected
  body substring, is Failed: check (4) is satisfied on the declared expectations and yet
  does not yield Success.
\<close>

theorem C1_cloud_mode_counterexample:
  "noLogHolds ex_env (SetExpectTestOutput (NewCheck ex_cloud_cfg) ex_nolog_output) \<and>
   fst (checkResult ex_env (SetExpectTestOutput (NewCheck ex_cloud_cfg) ex_nolog_output)
          (Some ex_response) None ex_world) = Failed"
  by (simp add: ex_defs SetExpectTestOutput_def NewCheck_def CloudMode_def SetCloudMode_def
      checkResult_def AssertStatus_def AssertResponseContains_def AssertLogContains_def
      AssertNoLogContains_def statusHolds_def
      responseHolds_def logHolds_def noLogHolds_def window_def sublist_Cons_right prefix_code Let_def)

subsection \<open>C8: well-formedness of the request body\<close>

text \<open>
  C8. \<^verbatim>\<open>RunStage\<close> returns the bad-test-request error exactly when at least two of
  the three request-body forms (data, encoded request, raw request) of the stage's input
  are set; with at most one set it does not return that error.
\<close>

theorem C8_bad_request_iff:
  "(fst (RunStage env cfg c tc stage (ctx, w)) = Some ErrBadTestRequest) = (2 \<le> setForms (StageInput stage))"
  by (simp add: RunStage_unfold Let_def RunStage_start_fst checkTestSanity_setForms split: option.splits)

theorem C8_bad_request_witness:
  "fst (RunStage ex_env ex_cfg (NewCheck ex_cfg) \<lparr>TestTitle = ''920100-1'', Stages = [ex_bad_stage]\<rparr>
         ex_bad_stage (ex_ctx, ex_world)) = Some ErrBadTestRequest \<and>
   setForms (StageInput ex_bad_stage) = 2"
  using C8_bad_request_iff
    [of ex_env ex_cfg "NewCheck ex_cfg" "\<lparr>TestTitle = ''920100-1'', Stages = [ex_bad_stage]\<rparr>"
      ex_bad_stage ex_ctx ex_world]
  by (simp add: ex_defs setForms_def IsNotEmpty_def)

subsection \<open>C10: the global input overrides\<close>

text \<open>
  C10, as amended. \<^verbatim>\<open>applyInputOverride\<close> returns a nil error; port, address and
  protocol are replaced exactly when the corresponding override is set; URI, version,
  method, data, encoded request, raw request and the stop-magic flag are unchanged; no
  header other than Host changes; and the Host header becomes the overriding address
  when the address override is set and the input has no Host header or one whose value is
  the empty string, and is unchanged otherwise.
\<close>

theorem C10_applyInputOverride:
  "fst (applyInputOverride cfg t) = None \<and>
   (let t' = snd (applyInputOverride cfg t); ov = OverrideInput cfg in
     Port t' = (case Port_o ov of None \<Rightarrow> Port t | Some p \<Rightarrow> Some p) \<and>
     DestAddr t' = (case DestAddr_o ov of None \<Rightarrow> DestAddr t | Some a \<Rightarrow> Some a) \<and>
     Protocol t' = (case Protocol_o ov of None \<Rightarrow> Protocol t | Some p \<Rightarrow> Some p) \<and>
     URI t' = URI t \<and> Version t' = Version t \<and> Method t' = Method t \<and> Data t' = Data t \<and>
     EncodedRequest t' = EncodedRequest t \<and> RAWRequest t' = RAWRequest t \<and>
     StopMagic t' = StopMagic t \<and>
     (\<forall>k. k \<noteq> ''Host'' \<longrightarrow> header_of t' k = header_of t k) \<and>
     header_of t' ''Host'' =
       (case DestAddr_o ov of None \<Rightarrow> header_of t ''Host''
        | Some a \<Rightarrow> (case header_of t ''Host'' of None \<Rightarrow> Some a
                      | Some v \<Rightarrow> if v = [] then Some a else Some v)))"
  by (auto simp: applyInputOverride_def Let_def header_of_def Get_def Set_def split: option.splits)

theorem C10_override_witness:
  "''Accept'' \<noteq> ''Host'' \<and>
   header_of (snd (applyInputOverride ex_override_cfg ex_input)) ''Accept'' = Some ''*/*'' \<and>
   header_of (snd (applyInputOverride ex_override_cfg ex_input)) ''Host'' = Some ''waf.example'' \<and>
   DestAddr (snd (applyInputOverride ex_override_cfg ex_input)) = Some ''waf.example'' \<and>
   Port (snd (applyInputOverride ex_override_cfg ex_input)) = None"
  using C10_applyInputOverride [of ex_override_cfg ex_input]
  by (simp add: Let_def ex_defs header_of_def)

text \<open>
  An input that already has a Host header, with the empty value, has it replaced: the
  Host header is not only written when none was present.
\<close>

theorem C10_empty_host_counterexample:
  "header_of ex_host_input ''Host'' = Some [] \<and>
   header_of (snd (applyInputOverride ex_override_cfg ex_host_input)) ''Host'' = Some ''waf.example''"
  by (simp add: applyInputOverride_def Let_def header_of_def Get_def Set_def ex_defs)

subsection \<open>C6: forced results\<close>

text \<open>
  C6, as amended. For a stage whose input passes the well-formedness check: when the test
  id has a forced result, which is Ignored if forced ignore is configured, else ForceFail
  if forced fail is, else ForcePass, \<^verbatim>\<open>RunStage\<close> returns no error, records exactly
  that result, displays it with zero round-trip and stage time, makes no connection, sends
  no request, probes no log, consults no assertion, and leaves the executed count and the
  cumulative time as they were; when no forced result is configured, the normal path
  (destination, start marker, request) runs.
\<close>

theorem C6_forced_result:
  "setForms (StageInput stage) \<le> 1 \<Longrightarrow>
   (case forcedResult c (TestTitle tc) of
      Some r \<Rightarrow>
        (let st' = RunStage env cfg c tc stage (ctx, w); ctx' = fst (snd st'); w' = snd (snd st') in
         fst st' = None \<and>
         ctx' = ctx\<lparr>Stats := addResultToStats r (TestTitle tc) (Stats ctx)\<rparr> \<and>
         w' = displayResult (Output ctx) r 0 0 (w\<lparr>stages := Suc (stages w)\<rparr>) \<and>
         conns w' = conns w \<and> sends w' = sends w \<and> probes w' = probes w \<and>
         StatsRun (Stats ctx') = StatsRun (Stats ctx) \<and>
         StatsRunTime (Stats ctx') = StatsRunTime (Stats ctx))
    | None \<Rightarrow>
        RunStage env cfg c tc stage (ctx, w) =
          RunStage_start env cfg c tc (snd (applyInputOverride cfg (StageInput stage)))
            (StageOutput stage) (stages w) (newUUID env (stages w))
            (ctx, w\<lparr>stages := Suc (stages w)\<rparr>))"
  by (simp add: RunStage_unfold checkTestSanity_setForms Let_def displayResult_counters
      addResultToStats_def split: option.splits)

theorem C6_forced_witness:
  "setForms (StageInput ex_stage) \<le> 1 \<and>
   forcedResult (NewCheck ex_cfg) ''forcepass-1'' = Some ForcePass \<and>
   RunStage ex_env ex_cfg (NewCheck ex_cfg) \<lparr>TestTitle = ''forcepass-1'', Stages = [ex_stage]\<rparr>
     ex_stage (ex_ctx, ex_world) =
     (None, ex_ctx\<lparr>Stats := addResultToStats ForcePass ''forcepass-1'' (Stats ex_ctx)\<rparr>,
      displayResult False ForcePass 0 0 (ex_world\<lparr>stages := 1\<rparr>))"
proof -
  have a: "setForms (StageInput ex_stage) \<le> 1"
    by (simp add: setForms_def ex_defs IsNotEmpty_def)
  have b: "forcedResult (NewCheck ex_cfg) ''forcepass-1'' = Some ForcePass"
    by (simp add: forcedResult_def ForcedIgnore_def ForcedFail_def ForcedPass_def NewCheck_def ex_defs)
  show ?thesis
    using a b C6_forced_result [OF a, where c = "NewCheck ex_cfg"
        and tc = "\<lparr>TestTitle = ''forcepass-1'', Stages = [ex_stage]\<rparr>"
        and env = ex_env and cfg = ex_cfg and ctx = ex_ctx and w = ex_world]
    by (simp add: Let_def prod_eq_iff ex_ctx_def emptyContext_def ex_world_def)
qed

text \<open>
  A stage with a forced pass whose input sets two body forms: the stage is not recorded,
  the error is returned.
\<close>

theorem C6_malformed_counterexample:
  "forcedResult (NewCheck ex_cfg) ''forcepass-1'' = Some ForcePass \<and>
   RunStage ex_env ex_cfg (NewCheck ex_cfg) \<lparr>TestTitle = ''forcepass-1'', Stages = [ex_bad_stage]\<rparr>
     ex_bad_stage (ex_ctx, ex_world) = (Some ErrBadTestRequest, ex_ctx, ex_world\<lparr>stages := 1\<rparr>)"
  by (simp add: RunStage_unfold Let_def checkTestSanity_def IsNotEmpty_def ex_defs
      forcedResult_def ForcedIgnore_def ForcedFail_def ForcedPass_def NewCheck_def)

subsection \<open>C7: tolerance of a marker that cannot be acquired\<close>

text \<open>
  C7. For a stage in non-cloud mode that reaches the marker synchronization (its input is
  well-formed and no result is forced): when the acquisition of the start marker fails,
  \<^verbatim>\<open>RunStage\<close> goes on with the real request, the start marker left unset, if the
  expected output declares that an error is expected, and otherwise returns the error
  "failed to find start marker" wrapping the cause; it returns no error exactly when the
  error is expected. The same holds for the end marker, after the real request.
\<close>

theorem C7_marker_failure_tolerance:
  assumes "setForms (StageInput stage) \<le> 1"
    and "forcedResult c (TestTitle tc) = None"
    and "notRunningInCloudMode c"
  shows
   "(let t = snd (applyInputOverride cfg (StageInput stage));
         out = StageOutput stage; n = stages w; sid = newUUID env n;
         dest = \<lparr>DestAddr_d = getDestAddr env t, Port_d = getPort env t, Protocol_d = getProtocol env t\<rparr>
     in \<forall>err w'. markAndFlush env cfg ctx dest sid (w\<lparr>stages := Suc n\<rparr>) = (Inl err, w') \<longrightarrow>
          RunStage env cfg c tc stage (ctx, w) =
            (if ExpectError out
             then RunStage_request env cfg (SetStartMarker c None) tc t out n dest sid (ctx, w')
             else (Some (Errorf ''failed to find start marker: '' err), ctx, w')) \<and>
          StartMarker_c (SetStartMarker c None) = None \<and>
          ((fst (RunStage env cfg c tc stage (ctx, w)) = None) = ExpectError out)) \<and>
    (\<forall>out n dest sid resp rerr ctx w err w'.
        markAndFlush env cfg ctx dest sid w = (Inl err, w') \<longrightarrow>
          RunStage_end env cfg c tc out n dest sid resp rerr (ctx, w) =
            (if ExpectError out
             then RunStage_record env (SetEndMarker c None) tc out n resp rerr (ctx, w')
             else (Some (Errorf ''failed to find end marker: '' err), ctx, w')) \<and>
          EndMarker_c (SetEndMarker c None) = None \<and>
          ((fst (RunStage_end env cfg c tc out n dest sid resp rerr (ctx, w)) = None) = ExpectError out))"
  using assms
  by (auto simp: RunStage_unfold checkTestSanity_setForms Let_def RunStage_start_def
      RunStage_end_def RunStage_request_expect RunStage_record_fst SetStartMarker_def SetEndMarker_def)

theorem C7_marker_failure_witness:
  "setForms (StageInput ex_stage) \<le> 1 \<and> forcedResult (NewCheck ex_cfg) (TestTitle ex_test) = None \<and>
   notRunningInCloudMode (NewCheck ex_cfg) \<and>
   fst (markAndFlush ex_env_refused ex_cfg ex_ctx ex_dest ''stage-0'' (ex_world\<lparr>stages := 1\<rparr>)) =
     Inl (Errorf (''ftw/run: can't connect to destination '' @ fmt_dest ex_dest @ '': '')
            (External ''connection refused'')) \<and>
   fst (RunStage ex_env_refused ex_cfg (NewCheck ex_cfg) ex_test ex_stage (ex_ctx, ex_world)) =
     Some (Errorf ''failed to find start marker: ''
            (Errorf (''ftw/run: can't connect to destination '' @ fmt_dest ex_dest @ '': '')
               (External ''connection refused''))) \<and>
   fst (RunStage_end ex_env_refused ex_cfg (NewCheck ex_cfg) ex_test ex_output 0 ex_dest ''stage-0''
          (Some ex_response) None (ex_ctx, ex_world)) =
     Some (Errorf ''failed to find end marker: ''
            (Errorf (''ftw/run: can't connect to destination '' @ fmt_dest ex_dest @ '': '')
               (External ''connection refused'')))"
proof -
  have a: "setForms (StageInput ex_stage) \<le> 1"
    by (simp add: setForms_def ex_defs IsNotEmpty_def)
  have b: "forcedResult (NewCheck ex_cfg) (TestTitle ex_test) = None"
    by (simp add: forcedResult_def ForcedIgnore_def ForcedFail_def ForcedPass_def NewCheck_def ex_defs)
  have c: "notRunningInCloudMode (NewCheck ex_cfg)"
    by (simp add: notRunningInCloudMode_def CloudMode_def NewCheck_def ex_defs)
  have t: "snd (applyInputOverride ex_cfg ex_input) = ex_input"
    by (simp add: applyInputOverride_def ex_cfg_def)
  have d: "\<lparr>DestAddr_d = getDestAddr ex_env_refused ex_input, Port_d = getPort ex_env_refused ex_input,
            Protocol_d = getProtocol ex_env_refused ex_input\<rparr> = ex_dest"
    by (simp add: ex_defs)
  have "fmt_nat 0 = ''0''"
    by code_simp
  then have s: "newUUID ex_env_refused 0 = ''stage-0''"
    by (simp add: ex_defs)
  have o: "StageInput ex_stage = ex_input" "\<not> ExpectError (StageOutput ex_stage)" "stages ex_world = 0"
    "\<not> ExpectError ex_output"
    by (simp_all add: ex_defs)
  show ?thesis
    using a b c C7_marker_failure_tolerance [OF a b c, where env = ex_env_refused and cfg = ex_cfg and ctx = ex_ctx and w = ex_world]
    by (simp add: Let_def t d s o refused_markAndFlush)
qed

subsection \<open>C4: the marker synchronization\<close>

text \<open>
  C4. \<^verbatim>\<open>markAndFlush\<close>: when probe attempt \<open>k\<close> (one of the 20) is the first on
  which the marker is observed, all attempts up to it having completed, the matched line
  is returned with no error and no further probe is made; when 20 attempts complete
  without the marker being observed, the result is the marker-not-found error, whose
  message ends with the name of the log file of the run context, after exactly 20 probes;
  and then, unless the stage expects an error, \<^verbatim>\<open>RunStage\<close> returns that error,
  wrapped as a failure to find the start (or, after the request, the end) marker.
\<close>

theorem C4_markAndFlush:
  "(\<forall>k m. k < 20 \<and> (\<forall>j\<le>k. attemptCompletes env dest (markerRequest cfg sid) w j) \<and>
          (\<forall>j<k. probeAnswer env sid w j = None) \<and> probeAnswer env sid w k = Some m \<longrightarrow>
      fst (markAndFlush env cfg ctx dest sid w) = Inr m \<and>
      probes (snd (markAndFlush env cfg ctx dest sid w)) = probes w + Suc k \<and>
      sends (snd (markAndFlush env cfg ctx dest sid w)) = sends w + Suc k) \<and>
   ((\<forall>j<20. attemptCompletes env dest (markerRequest cfg sid) w j \<and> probeAnswer env sid w j = None) \<longrightarrow>
      fst (markAndFlush env cfg ctx dest sid w) = Inl (MarkerNotFound (FileName (LogLines ctx))) \<and>
      Error (MarkerNotFound (FileName (LogLines ctx))) =
        ''can't find log marker. Am I reading the correct log? Log file: '' @ FileName (LogLines ctx) \<and>
      probes (snd (markAndFlush env cfg ctx dest sid w)) = probes w + 20 \<and>
      (notRunningInCloudMode c \<and> \<not> ExpectError (StageOutput stage) \<longrightarrow>
         (setForms (StageInput stage) \<le> 1 \<and> forcedResult c (TestTitle tc) = None \<and>
          sid = newUUID env (stages w) \<and>
          dest = (let t = snd (applyInputOverride cfg (StageInput stage)) in
                  \<lparr>DestAddr_d = getDestAddr env t, Port_d = getPort env t, Protocol_d = getProtocol env t\<rparr>) \<longrightarrow>
            fst (RunStage env cfg c tc stage (ctx, w)) =
              Some (Errorf ''failed to find start marker: '' (MarkerNotFound (FileName (LogLines ctx))))) \<and>
         fst (RunStage_end env cfg c tc (StageOutput stage) n dest sid resp rerr (ctx, w)) =
           Some (Errorf ''failed to find end marker: '' (MarkerNotFound (FileName (LogLines ctx))))))"
proof (intro conjI allI impI)
  fix k m
  assume h: "k < 20 \<and> (\<forall>j\<le>k. attemptCompletes env dest (markerRequest cfg sid) w j) \<and>
          (\<forall>j<k. probeAnswer env sid w j = None) \<and> probeAnswer env sid w k = Some m"
  then have f: "fst (markAndFlush env cfg ctx dest sid w) = Inr m \<and>
         probes (snd (markAndFlush env cfg ctx dest sid w)) = probes w + Suc k \<and>
         sends (snd (markAndFlush env cfg ctx dest sid w)) = sends w + Suc k"
    using markAndFlush_found [of k env dest cfg sid w m ctx] by blast
  show "fst (markAndFlush env cfg ctx dest sid w) = Inr m" using f by simp
  show "probes (snd (markAndFlush env cfg ctx dest sid w)) = probes w + Suc k" using f by simp
  show "sends (snd (markAndFlush env cfg ctx dest sid w)) = sends w + Suc k" using f by simp
next
  assume h: "\<forall>j<20. attemptCompletes env dest (markerRequest cfg sid) w j \<and> probeAnswer env sid w j = None"
  note e = markAndFlush_exhausted [OF h, of ctx]
  show "fst (markAndFlush env cfg ctx dest sid w) = Inl (MarkerNotFound (FileName (LogLines ctx)))"
    using e by simp
  show "Error (MarkerNotFound (FileName (LogLines ctx))) =
        ''can't find log marker. Am I reading the correct log? Log file: '' @ FileName (LogLines ctx)"
    by simp
  show "probes (snd (markAndFlush env cfg ctx dest sid w)) = probes w + 20"
    using e by simp
  assume g: "notRunningInCloudMode c \<and> \<not> ExpectError (StageOutput stage)"
  obtain r w' where m: "markAndFlush env cfg ctx dest sid w = (r, w')"
    by (cases "markAndFlush env cfg ctx dest sid w")
  have r: "r = Inl (MarkerNotFound (FileName (LogLines ctx)))"
    using e m by simp
  show "fst (RunStage_end env cfg c tc (StageOutput stage) n dest sid resp rerr (ctx, w)) =
           Some (Errorf ''failed to find end marker: '' (MarkerNotFound (FileName (LogLines ctx))))"
    using g by (simp add: RunStage_end_def m r)
  assume s: "setForms (StageInput stage) \<le> 1 \<and> forcedResult c (TestTitle tc) = None \<and>
          sid = newUUID env (stages w) \<and>
          dest = (let t = snd (applyInputOverride cfg (StageInput stage)) in
                  \<lparr>DestAddr_d = getDestAddr env t, Port_d = getPort env t, Protocol_d = getProtocol env t\<rparr>)"
  have h': "\<forall>j<20. attemptCompletes env dest (markerRequest cfg sid) (w\<lparr>stages := Suc (stages w)\<rparr>) j \<and>
                  probeAnswer env sid (w\<lparr>stages := Suc (stages w)\<rparr>) j = None"
    using h by simp
  obtain r1 w1 where m1: "markAndFlush env cfg ctx dest sid (w\<lparr>stages := Suc (stages w)\<rparr>) = (r1, w1)"
    by (cases "markAndFlush env cfg ctx dest sid (w\<lparr>stages := Suc (stages w)\<rparr>)")
  have r1: "r1 = Inl (MarkerNotFound (FileName (LogLines ctx)))"
    using markAndFlush_exhausted [OF h', of ctx] m1 by simp
  have "\<not> checkTestSanity (StageInput stage)"
    using s by (simp add: checkTestSanity_setForms)
  then show "fst (RunStage env cfg c tc stage (ctx, w)) =
              Some (Errorf ''failed to find start marker: '' (MarkerNotFound (FileName (LogLines ctx))))"
    using g s m1 r1 by (simp add: RunStage_unfold RunStage_start_def Let_def)
qed

theorem C4_markAndFlush_witness:
  "fst (markAndFlush ex_env ex_cfg ex_ctx ex_dest ''stage-0'' ex_world) = Inr ''x-marker: stage-0'' \<and>
   probes (snd (markAndFlush ex_env ex_cfg ex_ctx ex_dest ''stage-0'' ex_world)) = 2 \<and>
   fst (markAndFlush ex_env_silent ex_cfg ex_ctx ex_dest ''stage-0'' ex_world) = Inl (MarkerNotFound ''waf.log'') \<and>
   probes (snd (markAndFlush ex_env_silent ex_cfg ex_ctx ex_dest ''stage-0'' ex_world)) = 20 \<and>
   fst (RunStage ex_env_silent ex_cfg (NewCheck ex_cfg) ex_test ex_stage (ex_ctx, ex_world)) =
     Some (Errorf ''failed to find start marker: '' (MarkerNotFound ''waf.log''))"
proof -
  have z: "fmt_nat 0 = ''0''"
    by code_simp
  have found: "fst (markAndFlush ex_env ex_cfg ex_ctx ex_dest ''stage-0'' ex_world) = Inr ''x-marker: stage-0'' \<and>
      probes (snd (markAndFlush ex_env ex_cfg ex_ctx ex_dest ''stage-0'' ex_world)) = 2"
    using C4_markAndFlush [where env = ex_env and cfg = ex_cfg and ctx = ex_ctx and dest = ex_dest
        and sid = "''stage-0''" and w = ex_world, THEN conjunct1, rule_format, of 1 "''x-marker: stage-0''"]
    by (simp add: attemptCompletes_def probeAnswer_def ex_env_def ex_world_def)
  have silent: "fst (markAndFlush ex_env_silent ex_cfg ex_ctx ex_dest ''stage-0'' ex_world) = Inl (MarkerNotFound ''waf.log'') \<and>
      probes (snd (markAndFlush ex_env_silent ex_cfg ex_ctx ex_dest ''stage-0'' ex_world)) = 20 \<and>
      fst (RunStage ex_env_silent ex_cfg (NewCheck ex_cfg) ex_test ex_stage (ex_ctx, ex_world)) =
        Some (Errorf ''failed to find start marker: '' (MarkerNotFound ''waf.log''))"
    using C4_markAndFlush [where env = ex_env_silent and cfg = ex_cfg and ctx = ex_ctx and dest = ex_dest
        and sid = "''stage-0''" and w = ex_world and c = "NewCheck ex_cfg" and stage = ex_stage
        and tc = ex_test, THEN conjunct2] z
    by (simp add: attemptCompletes_def probeAnswer_def ex_defs notRunningInCloudMode_def CloudMode_def
        NewCheck_def setForms_def IsNotEmpty_def forcedResult_def ForcedIgnore_def ForcedFail_def
        ForcedPass_def applyInputOverride_def Let_def)
  show ?thesis
    using found silent by simp
qed

subsection \<open>C5: the skip decision\<close>

text \<open>
  C5. \<^verbatim>\<open>needToSkipTest\<close>: a disabled test is skipped; otherwise, with an inclusion
  filter configured, the test is skipped exactly when its title does not match it,
  whatever the exclusion filter says; otherwise the test is skipped exactly when an
  exclusion filter is configured and matches the title. In \<^verbatim>\<open>RunTest\<close> a skipped test
  case adds one to the Skipped count (and prints a line when the test is disabled) and the
  loop goes on with the next test case; a test all of whose cases are skipped ends with
  no error, the Skipped count raised by the number of its cases, every other count and
  the executed count unchanged, and without any stage having been run.
\<close>

theorem C5_skip_decision:
 "needToSkipTest incl excl title enabled =
     (if \<not> enabled then True
      else case incl of
             Some r \<Rightarrow> \<not> r title
           | None \<Rightarrow> (case excl of Some r \<Rightarrow> r title | None \<Rightarrow> False)) \<and>
  (needToSkipTest (Include ctx) (Exclude ctx) (TestTitle tc) (Enabled (Meta t)) \<longrightarrow>
     RunTest_cases env cfg t (tc # rest) changed (ctx, w) =
       RunTest_cases env cfg t rest changed
         (ctx\<lparr>Stats := addResultToStats Skipped (TestTitle tc) (Stats ctx)\<rparr>,
          if \<not> Enabled (Meta t)
          then printUnlessQuietMode (Output ctx) ''skipping %s'' [S (TestTitle tc)] w else w)) \<and>
  ((\<forall>tc \<in> set (Tests t). needToSkipTest (Include ctx) (Exclude ctx) (TestTitle tc) (Enabled (Meta t))) \<longrightarrow>
     (let r = RunTest env cfg t (ctx, w); ctx' = fst (snd r); w' = snd (snd r) in
      fst r = None \<and>
      counts (Stats ctx') Skipped = counts (Stats ctx) Skipped + length (Tests t) \<and>
      (\<forall>k. k \<noteq> Skipped \<longrightarrow> counts (Stats ctx') k = counts (Stats ctx) k) \<and>
      StatsRun (Stats ctx') = StatsRun (Stats ctx) \<and>
      stages w' = stages w \<and> conns w' = conns w \<and> sends w' = sends w \<and> probes w' = probes w))"
proof (intro conjI impI)
  show "needToSkipTest incl excl title enabled =
     (if \<not> enabled then True
      else case incl of
             Some r \<Rightarrow> \<not> r title
           | None \<Rightarrow> (case excl of Some r \<Rightarrow> r title | None \<Rightarrow> False))"
    by (simp add: needToSkipTest_def Let_def split: option.splits)
next
  assume "needToSkipTest (Include ctx) (Exclude ctx) (TestTitle tc) (Enabled (Meta t))"
  then show "RunTest_cases env cfg t (tc # rest) changed (ctx, w) =
       RunTest_cases env cfg t rest changed
         (ctx\<lparr>Stats := addResultToStats Skipped (TestTitle tc) (Stats ctx)\<rparr>,
          if \<not> Enabled (Meta t)
          then printUnlessQuietMode (Output ctx) ''skipping %s'' [S (TestTitle tc)] w else w)"
    by (simp add: Let_def)
next
  assume "\<forall>tc \<in> set (Tests t). needToSkipTest (Include ctx) (Exclude ctx) (TestTitle tc) (Enabled (Meta t))"
  then show "let r = RunTest env cfg t (ctx, w); ctx' = fst (snd r); w' = snd (snd r) in
      fst r = None \<and>
      counts (Stats ctx') Skipped = counts (Stats ctx) Skipped + length (Tests t) \<and>
      (\<forall>k. k \<noteq> Skipped \<longrightarrow> counts (Stats ctx') k = counts (Stats ctx) k) \<and>
      StatsRun (Stats ctx') = StatsRun (Stats ctx) \<and>
      stages w' = stages w \<and> conns w' = conns w \<and> sends w' = sends w \<and> probes w' = probes w"
    using RunTest_cases_all_skipped [of "Tests t" ctx t env cfg True w]
    by (simp add: RunTest_def Let_def)
qed

theorem C5_skip_witness:
  "needToSkipTest (Some (\<lambda>title. True)) None ''920100-1'' False \<and>
   \<not> needToSkipTest (Some (\<lambda>title. title = ''920100-1'')) (Some (\<lambda>title. True)) ''920100-1'' True \<and>
   fst (RunTest ex_env ex_cfg ex_disabled_test (ex_ctx, ex_world)) = None \<and>
   counts (Stats (fst (snd (RunTest ex_env ex_cfg ex_disabled_test (ex_ctx, ex_world))))) Skipped = 2 \<and>
   stages (snd (snd (RunTest ex_env ex_cfg ex_disabled_test (ex_ctx, ex_world)))) = 0"
proof -
  have a: "needToSkipTest (Some (\<lambda>title. True)) None ''920100-1'' False"
    using C5_skip_decision [THEN conjunct1, of "Some (\<lambda>title. True)" None "''920100-1''" False]
    by simp
  have b: "\<not> needToSkipTest (Some (\<lambda>title. title = ''920100-1'')) (Some (\<lambda>title. True)) ''920100-1'' True"
    using C5_skip_decision [THEN conjunct1, of "Some (\<lambda>title. title = ''920100-1'')"
        "Some (\<lambda>title. True)" "''920100-1''" True]
    by simp
  have s: "\<forall>tc \<in> set (Tests ex_disabled_test).
             needToSkipTest (Include ex_ctx) (Exclude ex_ctx) (TestTitle tc) (Enabled (Meta ex_disabled_test))"
    by (simp add: needToSkipTest_def ex_disabled_test_def)
  show ?thesis
    using a b C5_skip_decision [where env = ex_env and cfg = ex_cfg and w = ex_world and ctx = ex_ctx
        and t = ex_disabled_test, THEN conjunct2, THEN conjunct2, THEN mp, OF s]
    by (simp add: Let_def ex_defs)
qed

subsection \<open>C9: construction of the log reader\<close>

text \<open>
  C9. \<^verbatim>\<open>NewFTWLogLines\<close>: the options never open a file. In cloud mode the
  construction succeeds with no file opened. In the default mode it returns the
  no-log-file error when the file name is empty, the wrapped open error when opening the
  named file fails, the no-log-file error when opening yields neither a file nor an
  error, and otherwise succeeds with the file open.
\<close>

theorem C9_NewFTWLogLines:
  "(let ll = fold applyOption opts
               \<lparr>logFile = None, FileName = LogFile cfg, StartMarker = None, EndMarker = None\<rparr> in
    logFile ll = None \<and>
    (ConfRunMode cfg = CloudRunMode \<longrightarrow> NewFTWLogLines env cfg opts w = (Inr ll, w)) \<and>
    (ConfRunMode cfg = DefaultRunMode \<longrightarrow>
       (FileName ll = [] \<longrightarrow> NewFTWLogLines env cfg opts w = (Inl ErrNoLogFile, w)) \<and>
       (FileName ll \<noteq> [] \<longrightarrow>
          (case osOpen env (FileName ll) of
             (f, Some err) \<Rightarrow>
               fst (NewFTWLogLines env cfg opts w) = Inl (Errorf ''cannot open log file: '' err)
           | (None, None) \<Rightarrow> fst (NewFTWLogLines env cfg opts w) = Inl ErrNoLogFile
           | (Some f, None) \<Rightarrow>
               NewFTWLogLines env cfg opts w =
                 (Inr (ll\<lparr>logFile := Some f\<rparr>), emit (OpenedFile (FileName ll)) w)))))"
  by (auto simp: NewFTWLogLines_def openLogFile_def Let_def fold_applyOption_logFile
      split: prod.splits option.splits)

theorem C9_NewFTWLogLines_witness:
  "ConfRunMode ex_cfg = DefaultRunMode \<and> ConfRunMode ex_cloud_cfg = CloudRunMode \<and>
   NewFTWLogLines ex_env ex_cfg [WithLogFile ''waf.log''] ex_world =
     (Inr ex_logLines, emit (OpenedFile ''waf.log'') ex_world) \<and>
   fst (NewFTWLogLines ex_env ex_cfg [WithLogFile ''modsec.log''] ex_world) =
     Inl (Errorf ''cannot open log file: '' (External ''no such file or directory'')) \<and>
   NewFTWLogLines ex_env ex_cfg [WithLogFile []] ex_world = (Inl ErrNoLogFile, ex_world) \<and>
   NewFTWLogLines ex_env ex_cloud_cfg [WithLogFile []] ex_world =
     (Inr \<lparr>logFile = None, FileName = [], StartMarker = None, EndMarker = None\<rparr>, ex_world)"
  using C9_NewFTWLogLines [of "[WithLogFile ''waf.log'']" ex_cfg ex_env ex_world]
    C9_NewFTWLogLines [of "[WithLogFile ''modsec.log'']" ex_cfg ex_env ex_world]
    C9_NewFTWLogLines [of "[WithLogFile []]" ex_cfg ex_env ex_world]
    C9_NewFTWLogLines [of "[WithLogFile []]" ex_cloud_cfg ex_env ex_world]
  by (simp add: Let_def ex_defs)

subsection \<open>C2: the statistics of a run\<close>




subsection \<open>C3: closing the log file\<close>

text \<open>
  C3. The log file is to be closed exactly once however the run ends. In \<^verbatim>\<open>Run\<close>
  the cleanup is deferred only after the loop over the tests, so a run that a stage aborts
  returns before it (\<open>Run_fileEvents\<close> above is the general statement): in the run
  below, whose only stage sets two request-body forms, the log file is opened once, the
  bad-test-request error is returned, and the file is not closed.
\<close>

theorem C3_abort_leaves_log_open:
  "snd (fst (Run ex_env ex_cfg [ex_bad_ftwtest] ex_config ex_world)) = Some ErrBadTestRequest \<and>
   opens (snd (Run ex_env ex_cfg [ex_bad_ftwtest] ex_config ex_world)) = 1 \<and>
   closes (snd (Run ex_env ex_cfg [ex_bad_ftwtest] ex_config ex_world)) = 0"
  by (simp add: ex_bad_run opens_def closes_def)

end
